theory Spec2Isabelle
  imports Complex_Main
begin

section \<open>Online dictionary learning: \<open>decomp/dictionary_learning.py\<close>\<close>

text \<open>
  The module has one function, \<open>solve\<close>. Its arrays are numpy arrays of floating-point
  or complex floating-point numbers. The embedding idealises the element types as the
  real and the complex numbers: rounding and overflow are left out. One place can
  leave the numbers all the same: the division by the exposure \<open>E\<close> in masked mode,
  where a zero entry makes numpy store \<open>nan\<close> and carry on. The arrays that can hold
  such entries, \<open>B\<close>, \<open>U\<close> and the dictionary, are arrays of values that are a number
  or \<open>nan\<close>.

  A two-dimensional array is the list of its rows. Every array inside the loop has a
  shape fixed by \<open>F = D.shape[0]\<close>, \<open>C = D.shape[1]\<close> and the length \<open>m\<close> of the index
  set of the iteration, so the elementwise operations are written out by index over
  these shapes. Arrays with more than one leading sample dimension are read with the
  leading dimensions flattened: an index of the minibatch selects one row of \<open>y\<close>, of
  \<open>x\<close> and of \<open>mask\<close>, and \<open>x[indexes]\<close> is two-dimensional whatever the rank of \<open>x\<close>.
\<close>

subsection \<open>Arrays, element types, errors\<close>

type_synonym 'a array1 = "'a list"
type_synonym 'a array2 = "'a list list"

text \<open>The exceptions that leave \<open>solve\<close>.\<close>

datatype error = NotImplementedError | ShapeMismatch | IndexError | ValueError

text \<open>
  A floating-point value: a number, or \<open>nan\<close>. Every arithmetic operation with a
  \<open>nan\<close> operand gives \<open>nan\<close>; \<open>fl2\<close> lifts a binary operation in this way, the
  \<open>map_fl\<close> of the datatype a unary one, and \<open>fl_sum\<close> is the sum of a list.
\<close>

datatype 'a fl = Fin 'a | NaN

fun fl2 :: "('a \<Rightarrow> 'b \<Rightarrow> 'c) \<Rightarrow> 'a fl \<Rightarrow> 'b fl \<Rightarrow> 'c fl" where
  "fl2 f (Fin u) (Fin v) = Fin (f u v)"
| "fl2 f (Fin u) NaN = NaN"
| "fl2 f NaN v = NaN"

definition fl_sum :: "'a::monoid_add fl list \<Rightarrow> 'a fl" where
  "fl_sum vs = foldr (fl2 (+)) vs (Fin 0)"

text \<open>
  The element type of \<open>y\<close>: \<open>kind_c\<close> is the test \<open>y.dtype.kind == 'c'\<close>, \<open>conj_of\<close> is
  \<open>xp.conj\<close> and \<open>real_of\<close> is \<open>xp.real\<close> on one element (both are the identity on a
  real element type).
\<close>

record 'a dtype =
  kind_c :: bool
  conj_of :: "'a \<Rightarrow> 'a"
  real_of :: "'a \<Rightarrow> real"

definition float64 :: "real dtype" where
  "float64 = \<lparr>kind_c = False, conj_of = (\<lambda>u. u), real_of = (\<lambda>u. u)\<rparr>"

definition complex128 :: "complex dtype" where
  "complex128 = \<lparr>kind_c = True, conj_of = cnj, real_of = Re\<rparr>"

definition zeros1 :: "nat \<Rightarrow> 'a::zero array1" where
  "zeros1 n = replicate n 0"

definition zeros2 :: "nat \<Rightarrow> nat \<Rightarrow> 'a::zero array2" where
  "zeros2 n m = replicate n (replicate m 0)"

definition shape0 :: "'a array2 \<Rightarrow> nat" where
  "shape0 M = length M"

definition shape1 :: "'a array2 \<Rightarrow> nat" where
  "shape1 M = (case M of [] \<Rightarrow> 0 | r # _ \<Rightarrow> length r)"

definition last_axis_is :: "nat \<Rightarrow> 'a array2 \<Rightarrow> bool" where
  "last_axis_is n M = list_all (\<lambda>r. length r = n) M"

text \<open>\<open>a.T\<close> for \<open>a\<close> of shape \<open>(m, n)\<close>.\<close>

definition T_of :: "nat \<Rightarrow> nat \<Rightarrow> 'a array2 \<Rightarrow> 'a array2" where
  "T_of m n a = map (\<lambda>j. map (\<lambda>r. a ! r ! j) [0..<m]) [0..<n]"

text \<open>\<open>xp.dot(a, b)\<close> for \<open>a\<close> of shape \<open>(n, m)\<close> and \<open>b\<close> of shape \<open>(m, k)\<close>.\<close>

definition dot :: "nat \<Rightarrow> nat \<Rightarrow> nat \<Rightarrow> 'a::semiring_0 array2 \<Rightarrow> 'a array2 \<Rightarrow> 'a array2" where
  "dot n m k a b =
     map (\<lambda>i. map (\<lambda>j. sum_list (map (\<lambda>l. a ! i ! l * b ! l ! j) [0..<m])) [0..<k]) [0..<n]"

text \<open>\<open>xp.sum(a, axis=0)\<close> for \<open>a\<close> of shape \<open>(m, k)\<close>.\<close>

definition sum_axis0 :: "nat \<Rightarrow> nat \<Rightarrow> 'a::monoid_add array2 \<Rightarrow> 'a array1" where
  "sum_axis0 m k a = map (\<lambda>c. sum_list (map (\<lambda>r. a ! r ! c) [0..<m])) [0..<k]"

text \<open>
  \<open>a[indexes]\<close> with an index array: a copy of the selected rows; an index outside
  the array raises.
\<close>

definition take_rows :: "'a array2 \<Rightarrow> nat list \<Rightarrow> error + 'a array2" where
  "take_rows a indexes =
     (if list_all (\<lambda>i. i < length a) indexes then Inr (map (\<lambda>i. a ! i) indexes)
      else Inl IndexError)"

text \<open>
  \<open>a[indexes] = v\<close>: row \<open>indexes[k]\<close> becomes \<open>v[k]\<close>, in the order of \<open>k\<close>, so that
  the last write remains where an index repeats.
\<close>

definition put_rows :: "'a array2 \<Rightarrow> nat list \<Rightarrow> 'a array2 \<Rightarrow> 'a array2" where
  "put_rows a indexes v = fold (\<lambda>k acc. acc[indexes ! k := v ! k]) [0..<length indexes] a"

subsection \<open>The collaborators of \<open>solve\<close>\<close>

text \<open>
  \<open>KeyboardInterrupt\<close> is raised between two bytecode instructions. Three places in
  the body of the \<open>try\<close> differ in what the handler returns: before \<open>x\<close> is written,
  after \<open>x\<close> is written and before \<open>D = D_new\<close>, and after \<open>D = D_new\<close>.
\<close>

datatype interrupt_point = At_start | After_write | After_update

text \<open>
  The modules \<open>lasso\<close>, \<open>utils.data\<close> and the random generator are not part of this
  development; they are parameters. \<open>minibatch_index\<close> takes \<open>y.shape\<close>, the minibatch
  size and the generator and returns the indices with the advanced generator. The
  three solvers take \<open>y, D, alpha, x0, tol, maxiter\<close> (and the mask where \<open>solve\<close>
  passes one) and return \<open>(it2, x)\<close>; the codes they return are numbers, whatever the
  dictionary they are given. \<open>interrupt\<close> tells whether, and where, a
  \<open>KeyboardInterrupt\<close> arrives during iteration \<open>it\<close>.
\<close>

record ('a, 'r) extern =
  RandomState :: "nat option \<Rightarrow> 'r"
  minibatch_index :: "nat \<times> nat \<Rightarrow> int \<Rightarrow> 'r \<Rightarrow> nat list \<times> 'r"
  solve_ista :: "'a array2 \<Rightarrow> 'a fl array2 \<Rightarrow> real \<Rightarrow> 'a array2 \<Rightarrow> real \<Rightarrow> int
                    \<Rightarrow> int \<times> 'a array2"
  solve_fista :: "'a array2 \<Rightarrow> 'a fl array2 \<Rightarrow> real \<Rightarrow> 'a array2 \<Rightarrow> real \<Rightarrow> int
                    \<Rightarrow> nat array2 option \<Rightarrow> int \<times> 'a array2"
  solve_ista_mask :: "'a array2 \<Rightarrow> 'a fl array2 \<Rightarrow> real \<Rightarrow> 'a array2 \<Rightarrow> real \<Rightarrow> int
                    \<Rightarrow> nat array2 \<Rightarrow> int \<times> 'a array2"
  interrupt :: "int \<Rightarrow> interrupt_point option"

text \<open>
  The arguments of \<open>solve\<close>. The mask holds weights that are not negative: zero at a
  missing entry, one (or a count) at an observed one, as the docstring asks; the code
  holds them as floats.
\<close>

record 'a args =
  arg_y :: "'a array2"
  arg_D :: "'a array2"
  arg_alpha :: real
  arg_x :: "'a array2 option"
  arg_tol :: real
  arg_minibatch :: int
  arg_maxiter :: int
  arg_lasso_method :: string
  arg_lasso_iter :: int
  arg_mask :: "nat array2 option"
  arg_random_seed :: "nat option"

text \<open>
  The local variables the loop carries from one iteration to the next. \<open>E\<close> is bound
  only when a mask is given; without one the model holds \<open>[]\<close> and never reads it.
\<close>

record ('a, 'r) state =
  st_rng :: 'r
  st_x :: "'a array2"
  st_D :: "'a fl array2"
  st_A :: "'a array2"
  st_B :: "'a fl array2"
  st_E :: "real array1"

definition JITTER :: real where
  "JITTER = 1 / 10 ^ 10"

subsection \<open>The body of the loop\<close>

text \<open>
  Lines 78 to 101: the call of the sparse-code solver. The result is the value of the
  variable \<open>x_minibatch\<close> after the branch and the minibatch of the mask. Both
  \<open>fista\<close> branches bind the solver's codes to the name \<open>x_minibatc\<close>, which is never
  read, so \<open>x_minibatch\<close> keeps the rows taken from \<open>x\<close>. In the \<open>ista\<close> branches the
  solver's codes are assigned to \<open>x[indexes]\<close> afterwards; codes of another shape than
  \<open>(m, F)\<close> are outside the solver's contract (numpy would broadcast them or raise
  \<open>ValueError\<close>) and give \<open>ValueError\<close> here.
\<close>

definition lasso_stage ::
  "('a, 'r) extern \<Rightarrow> 'a args \<Rightarrow> nat \<Rightarrow> 'a fl array2 \<Rightarrow> nat list \<Rightarrow> 'a array2 \<Rightarrow> 'a array2
     \<Rightarrow> error + ('a array2 \<times> nat array2)" where
  "lasso_stage ext a F D indexes x_minibatch y_minibatch =
     (case arg_mask a of
        None \<Rightarrow>
          if arg_lasso_method a = ''ista'' then
            (let (it2, x_new) = solve_ista ext y_minibatch D (arg_alpha a) x_minibatch
                                  (arg_tol a) (arg_lasso_iter a)
             in if length x_new = length indexes \<and> last_axis_is F x_new
                then Inr (x_new, []) else Inl ValueError)
          else if arg_lasso_method a = ''fista'' then
            (let (it2, x_minibatc) = solve_fista ext y_minibatch D (arg_alpha a) x_minibatch
                                  (arg_tol a) (arg_lasso_iter a) None
             in Inr (x_minibatch, []))
          else Inl NotImplementedError
      | Some mask_arr \<Rightarrow>
          (case take_rows mask_arr indexes of
             Inl e \<Rightarrow> Inl e
           | Inr mask_minibatch \<Rightarrow>
               if arg_lasso_method a = ''ista'' then
                 (let (it2, x_new) = solve_ista_mask ext y_minibatch D (arg_alpha a) x_minibatch
                                       (arg_tol a) (arg_lasso_iter a) mask_minibatch
                  in if length x_new = length indexes \<and> last_axis_is F x_new
                     then Inr (x_new, mask_minibatch) else Inl ValueError)
               else if arg_lasso_method a = ''fista'' then
                 (let (it2, x_minibatc) = solve_fista ext y_minibatch D (arg_alpha a) x_minibatch
                                       (arg_tol a) (arg_lasso_iter a) (Some mask_minibatch)
                  in Inr (x_minibatch, mask_minibatch))
               else Inl NotImplementedError))"

text \<open>Lines 106 to 108: \<open>xT\<close>, conjugated for a complex element type.\<close>

definition xT_of :: "'a dtype \<Rightarrow> nat \<Rightarrow> nat \<Rightarrow> 'a array2 \<Rightarrow> 'a array2" where
  "xT_of dt m F x_minibatch =
     (let xT = T_of m F x_minibatch
      in if kind_c dt then map (map (conj_of dt)) xT else xT)"

text \<open>Lines 110 and 111: the update of \<open>A\<close> at iteration \<open>it\<close>.\<close>

definition update_A ::
  "'a::real_normed_field dtype \<Rightarrow> nat \<Rightarrow> nat \<Rightarrow> int \<Rightarrow> 'a array2 \<Rightarrow> 'a array2 \<Rightarrow> 'a array2" where
  "update_A dt m F it A x_minibatch =
     (let xT = xT_of dt m F x_minibatch;
          it_inv = 1 / real_of_int it;
          G = dot F m F xT x_minibatch
      in map (\<lambda>j. map (\<lambda>k. of_real (1 - it_inv) * A ! j ! k + of_real it_inv * G ! j ! k)
                [0..<F]) [0..<F])"

text \<open>
  Line 113: the update of \<open>B\<close> without a mask. An entry of \<open>B\<close> that is \<open>nan\<close> stays
  \<open>nan\<close>.
\<close>

definition update_B ::
  "'a::real_normed_field dtype \<Rightarrow> nat \<Rightarrow> nat \<Rightarrow> nat \<Rightarrow> int \<Rightarrow> 'a fl array2 \<Rightarrow> 'a array2
     \<Rightarrow> 'a array2 \<Rightarrow> 'a fl array2" where
  "update_B dt m F C it B x_minibatch y_minibatch =
     (let xT = xT_of dt m F x_minibatch;
          it_inv = 1 / real_of_int it;
          G = dot F m C xT y_minibatch
      in map (\<lambda>j. map (\<lambda>c. map_fl (\<lambda>b. of_real (1 - it_inv) * b + of_real it_inv * G ! j ! c)
                               (B ! j ! c)) [0..<C]) [0..<F])"

text \<open>
  Lines 115 to 118: the update of \<open>E\<close> and \<open>B\<close> with a mask. \<open>1.0 / E\<close> divides by
  every entry of the new \<open>E\<close>, with no test before it, and nothing is raised. Where
  an entry of the new \<open>E\<close> is zero, \<open>1.0 / E\<close> is \<open>inf\<close>. The weights are not negative
  and \<open>E\<close> is their running sum, so at such a channel every weight met so far is
  zero: the column of \<open>y_minibatch * mask_minibatch\<close> and the entry of \<open>mask_sum\<close> are
  zero, the factor \<open>xp.dot(\<dots>) - mask_sum * B\<close> is zero (or \<open>nan\<close>), and its product with
  \<open>inf\<close> is \<open>nan\<close>: the whole column of \<open>B\<close> becomes \<open>nan\<close>.
\<close>

definition update_EB_mask ::
  "'a::real_normed_field dtype \<Rightarrow> nat \<Rightarrow> nat \<Rightarrow> nat \<Rightarrow> real array1 \<Rightarrow> 'a fl array2 \<Rightarrow> 'a array2
     \<Rightarrow> 'a array2 \<Rightarrow> nat array2 \<Rightarrow> real array1 \<times> 'a fl array2" where
  "update_EB_mask dt m F C E B x_minibatch y_minibatch mask_minibatch =
     (let xT = xT_of dt m F x_minibatch;
          mask_sum = sum_axis0 m C (map (map real) mask_minibatch);
          E' = map (\<lambda>c. E ! c + mask_sum ! c) [0..<C];
          ym = map (\<lambda>r. map (\<lambda>c. y_minibatch ! r ! c * of_nat (mask_minibatch ! r ! c)) [0..<C])
                 [0..<m];
          G = dot F m C xT ym
      in (E', map (\<lambda>j. map (\<lambda>c. if E' ! c = 0 then NaN
                                  else map_fl (\<lambda>b. b + of_real (1 / E' ! c)
                                                        * (G ! j ! c - of_real (mask_sum ! c) * b))
                                         (B ! j ! c)) [0..<C]) [0..<F]))"

text \<open>
  Lines 120 and 121: \<open>U\<close>. \<open>xp.dot(A, D)\<close> sums over the atoms; \<open>Adiag + _JITTER\<close> is
  the divisor of row \<open>j\<close>. The diagonal of \<open>A\<close> is never negative in a run (lemma
  \<open>run_diagonal\<close> below), so the divisor is not zero there; for a zero divisor, which
  no run meets, the model writes \<open>nan\<close>.
\<close>

definition dot_AD :: "nat \<Rightarrow> nat \<Rightarrow> 'a::real_normed_field array2 \<Rightarrow> 'a fl array2 \<Rightarrow> 'a fl array2" where
  "dot_AD F C A D =
     map (\<lambda>j. map (\<lambda>c. fl_sum (map (\<lambda>l. map_fl (\<lambda>d. A ! j ! l * d) (D ! l ! c)) [0..<F]))
               [0..<C]) [0..<F]"

definition U_of ::
  "nat \<Rightarrow> nat \<Rightarrow> 'a::real_normed_field array2 \<Rightarrow> 'a fl array2 \<Rightarrow> 'a fl array2 \<Rightarrow> 'a fl array2" where
  "U_of F C A B D =
     (let AD = dot_AD F C A D
      in map (\<lambda>j. map (\<lambda>c. if A ! j ! j + of_real JITTER = 0 then NaN
                           else fl2 (+) (map_fl (\<lambda>v. v / (A ! j ! j + of_real JITTER))
                                           (fl2 (-) (B ! j ! c) (AD ! j ! c)))
                                        (D ! j ! c)) [0..<C]) [0..<F])"

text \<open>Lines 122 to 125: \<open>Unorm\<close>, one entry for each row of \<open>U\<close>.\<close>

definition Unorm_of :: "'a::real_normed_field dtype \<Rightarrow> 'a fl array2 \<Rightarrow> real fl array1" where
  "Unorm_of dt U =
     (if kind_c dt
      then map (\<lambda>row. fl_sum (map (map_fl (\<lambda>u. real_of dt (conj_of dt u * u))) row)) U
      else map (\<lambda>row. map_fl (real_of dt) (fl_sum (map (map_fl (\<lambda>u. u * u)) row))) U)"

text \<open>
  Line 127: \<open>D_new = U / xp.maximum(Unorm, 1.0)\<close>. \<open>xp.maximum\<close> hands a \<open>nan\<close> on,
  so a row of \<open>U\<close> with a \<open>nan\<close> in it becomes \<open>nan\<close> throughout.
\<close>

definition D_new_of :: "'a::real_normed_field dtype \<Rightarrow> 'a fl array2 \<Rightarrow> 'a fl array2" where
  "D_new_of dt U =
     (let Unorm = Unorm_of dt U
      in map (\<lambda>j. map (\<lambda>u. fl2 (\<lambda>v n. v / of_real (max n 1)) u (Unorm ! j)) (U ! j))
           [0..<length U])"

text \<open>
  Line 128: \<open>xp.max(xp.abs(D - D_new)) < tol\<close>. The maximum of an array without
  entries raises \<open>ValueError\<close>; the maximum of an array with a \<open>nan\<close> in it is \<open>nan\<close>,
  and the comparison of \<open>nan\<close> with \<open>tol\<close> is false.
\<close>

definition max_abs_diff ::
  "nat \<Rightarrow> nat \<Rightarrow> 'a::real_normed_field fl array2 \<Rightarrow> 'a fl array2 \<Rightarrow> error + real fl" where
  "max_abs_diff F C D D_new =
     (case concat (map (\<lambda>j. map (\<lambda>c. fl2 (\<lambda>d n. norm (d - n)) (D ! j ! c) (D_new ! j ! c))
                              [0..<C]) [0..<F]) of
        [] \<Rightarrow> Inl ValueError
      | v # vs \<Rightarrow> Inr (fold (fl2 max) vs v))"

definition below :: "real fl \<Rightarrow> real \<Rightarrow> bool" where
  "below d tol = (case d of Fin r \<Rightarrow> r < tol | NaN \<Rightarrow> False)"

text \<open>
  Lines 73 to 103, the first half of the body: the minibatch is drawn, the solver is
  called and \<open>x[indexes] = x_minibatch\<close> is executed. The result holds the advanced
  generator, the indices, the new \<open>x\<close> and the three minibatches.
\<close>

definition sparse_coding ::
  "('a, 'r) extern \<Rightarrow> 'a args \<Rightarrow> ('a, 'r) state
     \<Rightarrow> error + ('r \<times> nat list \<times> 'a array2 \<times> 'a array2 \<times> 'a array2 \<times> nat array2)" where
  "sparse_coding ext a s =
     (let (indexes, rng') = minibatch_index ext (shape0 (arg_y a), shape1 (arg_D a))
                              (arg_minibatch a) (st_rng s)
      in case take_rows (st_x s) indexes of
           Inl e \<Rightarrow> Inl e
         | Inr x_minibatch \<Rightarrow>
            (case take_rows (arg_y a) indexes of
               Inl e \<Rightarrow> Inl e
             | Inr y_minibatch \<Rightarrow>
                (case lasso_stage ext a (shape0 (arg_D a)) (st_D s) indexes x_minibatch
                        y_minibatch of
                   Inl e \<Rightarrow> Inl e
                 | Inr (x_minibatch', mask_minibatch) \<Rightarrow>
                     Inr (rng', indexes, put_rows (st_x s) indexes x_minibatch', x_minibatch',
                          y_minibatch, mask_minibatch))))"

text \<open>
  Lines 106 to 127, under the comment \<open># Dictionary update\<close>: the statistics and the
  candidate dictionary \<open>D_new\<close>; \<open>m\<close> is the number of rows of the minibatch. Nothing
  in these lines raises.
\<close>

definition dictionary_update ::
  "'a::real_normed_field dtype \<Rightarrow> 'a args \<Rightarrow> int \<Rightarrow> ('a, 'r) state \<Rightarrow> nat \<Rightarrow> 'a array2 \<Rightarrow> 'a array2
     \<Rightarrow> nat array2 \<Rightarrow> 'a array2 \<times> 'a fl array2 \<times> real array1 \<times> 'a fl array2" where
  "dictionary_update dt a it s m x_minibatch y_minibatch mask_minibatch =
     (let F = shape0 (arg_D a); C = shape1 (arg_D a);
          A' = update_A dt m F it (st_A s) x_minibatch;
          (E', B') = (if arg_mask a = None
                      then (st_E s, update_B dt m F C it (st_B s) x_minibatch y_minibatch)
                      else update_EB_mask dt m F C (st_E s) (st_B s) x_minibatch y_minibatch
                             mask_minibatch);
          U = U_of F C A' B' (st_D s)
      in (A', B', E', D_new_of dt U))"

text \<open>
  One pass through the body of the loop, lines 72 to 133: the loop goes on with a
  new state, or \<open>solve\<close> returns \<open>(it, D, x)\<close>, or an exception leaves it. Line 129
  returns the name \<open>D\<close>, which line 130 has not yet rebound to \<open>D_new\<close>.
\<close>

datatype ('s, 'v) outcome = Continue 's | Return 'v

definition body ::
  "'a::real_normed_field dtype \<Rightarrow> ('a, 'r) extern \<Rightarrow> 'a args \<Rightarrow> int \<Rightarrow> ('a, 'r) state
     \<Rightarrow> error + (('a, 'r) state, int \<times> 'a fl array2 \<times> 'a array2) outcome" where
  "body dt ext a it s =
     (if interrupt ext it = Some At_start then Inr (Return (it, st_D s, st_x s))
      else
        case sparse_coding ext a s of
          Inl e \<Rightarrow> Inl e
        | Inr (rng', indexes, x', x_minibatch, y_minibatch, mask_minibatch) \<Rightarrow>
            if interrupt ext it = Some After_write then Inr (Return (it, st_D s, x'))
            else
              (let (A', B', E', D_new) = dictionary_update dt a it s (length indexes)
                                           x_minibatch y_minibatch mask_minibatch
               in case max_abs_diff (shape0 (arg_D a)) (shape1 (arg_D a)) (st_D s) D_new of
                    Inl e \<Rightarrow> Inl e
                  | Inr d \<Rightarrow>
                      if below d (arg_tol a) then Inr (Return (it, st_D s, x'))
                      else if interrupt ext it = Some After_update
                      then Inr (Return (it, D_new, x'))
                      else Inr (Continue \<lparr>st_rng = rng', st_x = x', st_D = D_new,
                                          st_A = A', st_B = B', st_E = E'\<rparr>)))"

subsection \<open>The loop and \<open>solve\<close>\<close>

text \<open>Line 71 and line 134: \<open>for it in range(1, maxiter)\<close>, then \<open>return maxiter, D, x\<close>.\<close>

function loop ::
  "'a::real_normed_field dtype \<Rightarrow> ('a, 'r) extern \<Rightarrow> 'a args \<Rightarrow> int \<Rightarrow> ('a, 'r) state
     \<Rightarrow> error + (int \<times> 'a fl array2 \<times> 'a array2)" where
  "loop dt ext a it s =
     (if it < arg_maxiter a then
        (case body dt ext a it s of
           Inl e \<Rightarrow> Inl e
         | Inr (Return r) \<Rightarrow> Inr r
         | Inr (Continue s') \<Rightarrow> loop dt ext a (it + 1) s')
      else Inr (arg_maxiter a, st_D s, st_x s))"
  by pat_completeness auto
termination
  by (relation "measure (\<lambda>(dt, ext, a, it, s). nat (arg_maxiter a - it))") auto

text \<open>
  Modelled from the spec: the module \<open>utils.assertion\<close>, whose checks run on lines 60
  to 64. The spec names what they enforce before the loop: the last dimension of \<open>x\<close>
  equals the first dimension of \<open>D\<close>, the last dimension of \<open>y\<close> equals the second
  dimension of \<open>D\<close>, and the mask has the shape of \<open>y\<close>; a violation is a
  \<open>ShapeMismatch\<close>. That the element types agree is the typing of the model. A list of
  rows of unequal lengths is no array, and is rejected with the same error.
\<close>

definition assert_shapes :: "'a array2 \<Rightarrow> 'a array2 \<Rightarrow> 'a array2 \<Rightarrow> nat array2 option \<Rightarrow> bool" where
  "assert_shapes x_arr D_arr y_arr mask_opt =
     (last_axis_is (shape1 D_arr) D_arr \<and>
      last_axis_is (shape0 D_arr) x_arr \<and>
      last_axis_is (shape1 D_arr) y_arr \<and>
      (case mask_opt of None \<Rightarrow> True
       | Some mask_arr \<Rightarrow> length mask_arr = length y_arr \<and> last_axis_is (shape1 D_arr) mask_arr))"

text \<open>Lines 54 to 69: the state in which the loop starts.\<close>

definition init ::
  "('a::real_normed_field, 'r) extern \<Rightarrow> 'a args \<Rightarrow> error + ('a, 'r) state" where
  "init ext a =
     (let F = shape0 (arg_D a); C = shape1 (arg_D a);
          rng = RandomState ext (arg_random_seed a);
          x0 = (case arg_x a of None \<Rightarrow> zeros2 (shape0 (arg_y a)) F | Some x_arr \<Rightarrow> x_arr)
      in if \<not> assert_shapes x0 (arg_D a) (arg_y a) (arg_mask a) then Inl ShapeMismatch
         else Inr \<lparr>st_rng = rng, st_x = x0, st_D = map (map Fin) (arg_D a), st_A = zeros2 F F,
                   st_B = map (map Fin) (zeros2 F C),
                   st_E = (if arg_mask a = None then [] else zeros1 C)\<rparr>)"

definition solve ::
  "'a::real_normed_field dtype \<Rightarrow> ('a, 'r) extern \<Rightarrow> 'a args
     \<Rightarrow> error + (int \<times> 'a fl array2 \<times> 'a array2)" where
  "solve dt ext a = (case init ext a of Inl e \<Rightarrow> Inl e | Inr s \<Rightarrow> loop dt ext a 1 s)"

subsection \<open>Notions the properties are stated with\<close>

text \<open>The squared norm of an atom: Euclidean for real, Hermitian for complex entries.\<close>

definition sqnorm :: "'a::real_normed_field list \<Rightarrow> real" where
  "sqnorm row = sum_list (map (\<lambda>u. (norm u)\<^sup>2) row)"

text \<open>
  Entry \<open>(j, c)\<close> of \<open>X\<^sup>H \<cdot> Y\<close> for \<open>X\<close> and \<open>Y\<close> with \<open>m\<close> rows: the transpose for a real
  element type, the conjugate transpose for a complex one.
\<close>

definition herm :: "'a dtype \<Rightarrow> 'a \<Rightarrow> 'a" where
  "herm dt u = (if kind_c dt then conj_of dt u else u)"

definition hdot :: "'a::semiring_0 dtype \<Rightarrow> nat \<Rightarrow> 'a array2 \<Rightarrow> 'a array2 \<Rightarrow> nat \<Rightarrow> nat \<Rightarrow> 'a" where
  "hdot dt m X Y j c = sum_list (map (\<lambda>r. herm dt (X ! r ! j) * Y ! r ! c) [0..<m])"

text \<open>The uniform average of the contributions \<open>Xb\<^sub>i\<^sup>H \<cdot> Xb\<^sub>i\<close>, computed directly.\<close>

definition running_average ::
  "'a::real_normed_field dtype \<Rightarrow> nat \<Rightarrow> 'a array2 list \<Rightarrow> 'a array2" where
  "running_average dt F xbs =
     map (\<lambda>j. map (\<lambda>k. sum_list (map (\<lambda>xb. hdot dt (length xb) xb xb j k) xbs)
                        / of_nat (length xbs)) [0..<F]) [0..<F]"

text \<open>
  The first \<open>k\<close> passes through the body, starting with the counter \<open>it\<close>: the state
  after them, or the return or the exception that ended them.
\<close>

fun run ::
  "'a::real_normed_field dtype \<Rightarrow> ('a, 'r) extern \<Rightarrow> 'a args \<Rightarrow> int \<Rightarrow> nat \<Rightarrow> ('a, 'r) state
     \<Rightarrow> error + (('a, 'r) state, int \<times> 'a fl array2 \<times> 'a array2) outcome" where
  "run dt ext a it 0 s = Inr (Continue s)"
| "run dt ext a it (Suc k) s =
     (case body dt ext a it s of
        Inl e \<Rightarrow> Inl e
      | Inr (Return r) \<Rightarrow> Inr (Return r)
      | Inr (Continue s') \<Rightarrow> run dt ext a (it + 1) k s')"

text \<open>The code matrix a pass through the body leaves behind.\<close>

fun x_after :: "(('a, 'r) state, int \<times> 'a fl array2 \<times> 'a array2) outcome \<Rightarrow> 'a array2" where
  "x_after (Continue s) = st_x s"
| "x_after (Return (it, D_arr, x_arr)) = x_arr"

text \<open>
  The minibatch codes of the first \<open>k\<close> passes, starting with the counter \<open>it\<close>: what
  the variable \<open>x_minibatch\<close> holds on line 106 of each pass.
\<close>

fun pass_codes ::
  "'a::real_normed_field dtype \<Rightarrow> ('a, 'r) extern \<Rightarrow> 'a args \<Rightarrow> int \<Rightarrow> nat \<Rightarrow> ('a, 'r) state
     \<Rightarrow> 'a array2 list" where
  "pass_codes dt ext a it 0 s = []"
| "pass_codes dt ext a it (Suc k) s =
     (case sparse_coding ext a s of
        Inl e \<Rightarrow> []
      | Inr (rng', indexes, x', x_minibatch, y_minibatch, mask_minibatch) \<Rightarrow>
          (case body dt ext a it s of
             Inr (Continue s') \<Rightarrow> x_minibatch # pass_codes dt ext a (it + 1) k s'
           | _ \<Rightarrow> [x_minibatch]))"


subsection \<open>Concrete inputs\<close>

text \<open>
  The sampler always draws the index 0; every solver returns the given codes; no
  interrupt arrives.
\<close>

definition ext_fixed :: "'a array2 \<Rightarrow> ('a, nat) extern" where
  "ext_fixed codes =
     \<lparr>RandomState = (\<lambda>seed. 0),
      minibatch_index = (\<lambda>shape size r. ([0], r + 1)),
      solve_ista = (\<lambda>yb Db alpha x0 tol n. (1, codes)),
      solve_fista = (\<lambda>yb Db alpha x0 tol n mb. (1, codes)),
      solve_ista_mask = (\<lambda>yb Db alpha x0 tol n mb. (1, codes)),
      interrupt = (\<lambda>it. None)\<rparr>"

definition args_ex ::
  "'a array2 \<Rightarrow> 'a array2 \<Rightarrow> real \<Rightarrow> int \<Rightarrow> string \<Rightarrow> nat array2 option \<Rightarrow> 'a args" where
  "args_ex y_arr D_arr tol n method mask_opt =
     \<lparr>arg_y = y_arr, arg_D = D_arr, arg_alpha = 1, arg_x = None, arg_tol = tol,
      arg_minibatch = 1, arg_maxiter = n, arg_lasso_method = method, arg_lasso_iter = 10,
      arg_mask = mask_opt, arg_random_seed = None\<rparr>"

text \<open>
  The state in which the loop starts on the codes \<open>x_arr\<close> and the one-atom,
  one-channel dictionary \<open>D_arr\<close>, without a mask.
\<close>

definition state_ex :: "'a::zero array2 \<Rightarrow> 'a array2 \<Rightarrow> ('a, nat) state" where
  "state_ex x_arr D_arr = \<lparr>st_rng = 0, st_x = x_arr, st_D = map (map Fin) D_arr, st_A = [[0]],
                           st_B = [[Fin 0]], st_E = []\<rparr>"

text \<open>As \<open>ext_fixed\<close>, with solvers that add 1 to every entry of the warm start.\<close>

definition ext_incr :: "('a::{one,plus}, nat) extern" where
  "ext_incr =
     \<lparr>RandomState = (\<lambda>seed. 0),
      minibatch_index = (\<lambda>shape size r. ([0], r + 1)),
      solve_ista = (\<lambda>yb Db alpha x0 tol n. (1, map (map (\<lambda>u. u + 1)) x0)),
      solve_fista = (\<lambda>yb Db alpha x0 tol n mb. (1, map (map (\<lambda>u. u + 1)) x0)),
      solve_ista_mask = (\<lambda>yb Db alpha x0 tol n mb. (1, map (map (\<lambda>u. u + 1)) x0)),
      interrupt = (\<lambda>it. None)\<rparr>"

text \<open>
  Two atoms, one channel, one sample with the observation 0 and the zero dictionary,
  for which the dictionary and \<open>B\<close> stay zero; the tolerance 0 lets no pass converge.
\<close>

definition avg_args :: "real args" where
  "avg_args = args_ex [[0]] [[0], [0]] 0 4 ''ista'' None"

definition avg_state :: "nat \<Rightarrow> real array2 \<Rightarrow> real array2 \<Rightarrow> (real, nat) state" where
  "avg_state r x_arr A_arr = \<lparr>st_rng = r, st_x = x_arr, st_D = [[Fin 0], [Fin 0]], st_A = A_arr,
                              st_B = [[Fin 0], [Fin 0]], st_E = []\<rparr>"

section \<open>Properties\<close>

subsection \<open>Evaluation on concrete inputs\<close>

lemmas eval_defs = solve_def init_def ext_fixed_def args_ex_def state_ex_def body_def
  sparse_coding_def dictionary_update_def lasso_stage_def take_rows_def put_rows_def
  update_A_def update_B_def update_EB_mask_def U_of_def dot_AD_def Unorm_of_def D_new_of_def
  max_abs_diff_def below_def fl_sum_def xT_of_def T_of_def dot_def sum_axis0_def
  assert_shapes_def last_axis_is_def shape0_def shape1_def zeros1_def zeros2_def float64_def
  complex128_def JITTER_def Let_def

subsection \<open>Reading and writing the rows of \<open>x\<close>\<close>

lemma put_rows_fold_length:
  "length (fold (\<lambda>k acc. acc[indexes ! k := v ! k]) ks a) = length a"
  by (induction ks arbitrary: a) simp_all

lemma length_put_rows: "length (put_rows a indexes v) = length a"
  by (simp add: put_rows_def put_rows_fold_length)

lemma put_rows_fold_other:
  "\<forall>k\<in>set ks. indexes ! k \<noteq> i \<Longrightarrow>
     fold (\<lambda>k acc. acc[indexes ! k := v ! k]) ks a ! i = a ! i"
  by (induction ks arbitrary: a) simp_all

lemma put_rows_other: "i \<notin> set indexes \<Longrightarrow> put_rows a indexes v ! i = a ! i"
  unfolding put_rows_def
  by (rule put_rows_fold_other) (auto simp: in_set_conv_nth)

lemma put_rows_fold_same:
  "\<forall>k\<in>set ks. v ! k = a ! (indexes ! k) \<Longrightarrow>
     fold (\<lambda>k acc. acc[indexes ! k := v ! k]) ks a = a"
  by (induction ks) simp_all

lemma put_rows_same: "put_rows a indexes (map (\<lambda>i. a ! i) indexes) = a"
  unfolding put_rows_def
  by (rule put_rows_fold_same) simp

lemma take_rows_Inr: "take_rows a indexes = Inr v \<Longrightarrow> v = map (\<lambda>i. a ! i) indexes"
  by (simp add: take_rows_def split: if_splits)

lemma sparse_coding_x:
  assumes "sparse_coding ext a s = Inr (rng', indexes, x', xb, yb, mb)"
  shows "indexes = fst (minibatch_index ext (shape0 (arg_y a), shape1 (arg_D a))
                          (arg_minibatch a) (st_rng s))"
    and "x' = put_rows (st_x s) indexes xb"
  using assms
  by (auto simp: sparse_coding_def Let_def split: prod.splits sum.splits)

lemma body_x_after:
  assumes "body dt ext a it s = Inr out"
  shows "x_after out = st_x s \<or>
         (\<exists>rng' indexes x' xb yb mb.
            sparse_coding ext a s = Inr (rng', indexes, x', xb, yb, mb) \<and> x_after out = x')"
  using assms
  by (auto simp: body_def Let_def split: if_splits sum.splits prod.splits)

text \<open>
  C9. A pass through the body leaves every row of \<open>x\<close> whose index was not drawn
  into the minibatch as it was, and does not change the number of rows: only the rows
  selected by the sampled indices are written. This holds for every solver choice,
  with or without a mask, and wherever the pass ends (convergence, interrupt or the
  next iteration).
\<close>

theorem unsampled_rows_unchanged:
  assumes "body dt ext a it s = Inr out"
    and "i \<notin> set (fst (minibatch_index ext (shape0 (arg_y a), shape1 (arg_D a))
                         (arg_minibatch a) (st_rng s)))"
  shows "length (x_after out) = length (st_x s) \<and> x_after out ! i = st_x s ! i"
proof -
  from body_x_after[OF assms(1)] show ?thesis
  proof
    assume "x_after out = st_x s"
    then show ?thesis by simp
  next
    assume "\<exists>rng' indexes x' xb yb mb.
              sparse_coding ext a s = Inr (rng', indexes, x', xb, yb, mb) \<and> x_after out = x'"
    then obtain rng' indexes x' xb yb mb
      where sc: "sparse_coding ext a s = Inr (rng', indexes, x', xb, yb, mb)"
        and out: "x_after out = x'"
      by blast
    from sparse_coding_x[OF sc] assms(2) out show ?thesis
      by (simp add: length_put_rows put_rows_other)
  qed
qed

text \<open>
  On two samples with the index 0 drawn and a solver that returns the code 1, the
  pass writes row 0 and leaves row 1.
\<close>

theorem unsampled_rows_unchanged_witness:
  "body float64 (ext_fixed [[1::real]]) (args_ex [[1], [1::real]] [[1]] (1 / 1000) 3 ''ista'' None) 1 (state_ex [[0], [0]] [[1::real]])
     = Inr (Return (1, [[Fin 1]], [[1], [0]])) \<and>
   1 \<notin> set (fst (minibatch_index (ext_fixed [[1::real]])
                   (shape0 (arg_y (args_ex [[1], [1::real]] [[1]] (1 / 1000) 3 ''ista'' None)),
                    shape1 (arg_D (args_ex [[1], [1::real]] [[1]] (1 / 1000) 3 ''ista'' None)))
                   (arg_minibatch (args_ex [[1], [1::real]] [[1]] (1 / 1000) 3 ''ista'' None))
                   (st_rng (state_ex [[0], [0]] [[1::real]])))) \<and>
   length (x_after (Return (1, [[Fin 1]], [[1], [0 :: real]]))) = length (st_x (state_ex [[0], [0]] [[1::real]])) \<and>
   x_after (Return (1, [[Fin 1]], [[1], [0 :: real]])) ! 1 = st_x (state_ex [[0], [0]] [[1::real]]) ! 1"
proof -
  have b: "body float64 (ext_fixed [[1::real]]) (args_ex [[1], [1::real]] [[1]] (1 / 1000) 3 ''ista'' None) 1
             (state_ex [[0], [0]] [[1::real]]) = Inr (Return (1, [[Fin 1]], [[1], [0]]))"
    by (simp add: eval_defs)
  have n: "1 \<notin> set (fst (minibatch_index (ext_fixed [[1::real]])
                   (shape0 (arg_y (args_ex [[1], [1::real]] [[1]] (1 / 1000) 3 ''ista'' None)),
                    shape1 (arg_D (args_ex [[1], [1::real]] [[1]] (1 / 1000) 3 ''ista'' None)))
                   (arg_minibatch (args_ex [[1], [1::real]] [[1]] (1 / 1000) 3 ''ista'' None))
                   (st_rng (state_ex [[0], [0]] [[1::real]]))))"
    by (simp add: ext_fixed_def)
  from unsampled_rows_unchanged[OF b n] b n show ?thesis
    by simp
qed

subsection \<open>The \<open>fista\<close> branches\<close>

lemma lasso_stage_fista:
  assumes "arg_lasso_method a = ''fista''"
    and "lasso_stage ext a F D_arr indexes xb yb = Inr (xb', mb)"
  shows "xb' = xb"
  using assms
  by (auto simp: lasso_stage_def Let_def split: option.splits sum.splits prod.splits if_splits)

lemma sparse_coding_fista:
  assumes "arg_lasso_method a = ''fista''"
    and "sparse_coding ext a s = Inr (rng', indexes, x', xb, yb, mb)"
  shows "x' = st_x s"
  using assms
  by (auto simp: sparse_coding_def Let_def put_rows_same
      split: prod.splits sum.splits dest!: take_rows_Inr lasso_stage_fista)

text \<open>
  With the solver choice \<open>fista\<close>, masked or not, a pass through the body leaves the
  whole of \<open>x\<close> as it was: the rows written back are the warm-start rows.
\<close>

lemma body_fista_keeps_x:
  assumes "arg_lasso_method a = ''fista''" and "body dt ext a it s = Inr out"
  shows "x_after out = st_x s"
  using body_x_after[OF assms(2)] sparse_coding_fista[OF assms(1)]
  by auto

text \<open>
  C1. The claim is that with the solver choice \<open>fista\<close> the codes the solver returns
  are written into \<open>x\<close> at the sampled indices. The code does not do that. On one
  sample, with a \<open>fista\<close> solver that returns the code 1 for the warm start 0, \<open>solve\<close>
  runs two iterations and returns \<open>x\<close> with the warm-start value 0 at the sampled
  index, not the solver's 1.
\<close>

theorem fista_codes_discarded:
  "solve float64 (ext_fixed [[1::real]]) (args_ex [[1::real]] [[2]] (1 / 1000) 3 ''fista'' None)
     = Inr (2, [[Fin (1 / 2)]], [[0]]) \<and>
   snd (solve_fista (ext_fixed [[1::real]]) [[1]] [[Fin 2]] 1 [[0]] (1 / 1000) 10 None) = [[1]]"
  by (simp add: eval_defs loop.simps[of _ _ _ 1] loop.simps[of _ _ _ 2])

subsection \<open>Values that may be \<open>nan\<close>\<close>

lemma fl_sum_Fin: "fl_sum (map Fin xs) = Fin (sum_list xs)"
  by (induction xs) (simp_all add: fl_sum_def)

lemma fl_sum_map_Fin: "fl_sum (map (map_fl f) (map Fin xs)) = Fin (sum_list (map f xs))"
  by (induction xs) (simp_all add: fl_sum_def)

lemma fl2_NaN_right: "fl2 f u NaN = NaN"
  by (cases u) simp_all

lemma fl_sum_NaN: "NaN \<in> set vs \<Longrightarrow> fl_sum vs = NaN"
  by (induction vs) (auto simp: fl_sum_def fl2_NaN_right)

lemma fl_sum_comp_Fin: "fl_sum (map (map_fl f \<circ> Fin) xs) = Fin (sum_list (map f xs))"
  by (induction xs) (simp_all add: fl_sum_def)




subsection \<open>The projection of the atoms\<close>

lemma sqnorm_real: "sum_list (map (\<lambda>u. u * u) row) = sqnorm row" for row :: "real list"
  by (induction row) (simp_all add: sqnorm_def power2_eq_square)

lemma sqnorm_complex: "sum_list (map (\<lambda>u. Re (cnj u * u)) row) = sqnorm row"
proof -
  have "Re (cnj u * u) = (norm u)\<^sup>2" for u
    by (simp add: cmod_power2) (simp add: power2_eq_square)
  then show ?thesis
    by (simp add: sqnorm_def)
qed

lemma Unorm_nth: "j < length U \<Longrightarrow> Unorm_of dt U ! j = Unorm_of dt [U ! j] ! 0"
  by (simp add: Unorm_of_def)

lemma Unorm_float64: "Unorm_of float64 [map Fin r] ! 0 = Fin (sqnorm r)"
  by (simp add: Unorm_of_def float64_def fl_sum_comp_Fin sqnorm_real)

lemma sqnorm_complex_parts: "sum_list (map (\<lambda>u. Re u * Re u + Im u * Im u) row) = sqnorm row"
proof -
  have "(norm u)\<^sup>2 = Re u * Re u + Im u * Im u" for u
    by (simp add: cmod_power2) (simp add: power2_eq_square)
  then show ?thesis
    unfolding sqnorm_def by (simp only:)
qed

lemma Unorm_complex128: "Unorm_of complex128 [map Fin r] ! 0 = Fin (sqnorm r)"
  by (simp add: Unorm_of_def complex128_def fl_sum_comp_Fin sqnorm_complex_parts)


lemma sqnorm_nonneg: "0 \<le> sqnorm row"
  unfolding sqnorm_def by (rule sum_list_nonneg) auto

lemma sqnorm_scaled:
  fixes row :: "'a::real_normed_field list"
  shows "sqnorm (map (\<lambda>u. u / of_real M) row) = sqnorm row / M\<^sup>2"
  unfolding sqnorm_def
  by (induction row) (simp_all add: norm_divide power_divide add_divide_distrib)


lemma D_new_row:
  assumes "\<And>r. Unorm_of dt [map Fin r] ! 0 = Fin (sqnorm r)"
    and "j < length U" and "U ! j = map Fin r"
  shows "D_new_of dt U ! j = map Fin (map (\<lambda>u. u / of_real (max (sqnorm r) 1)) r)"
  using assms(2,3) by (simp add: D_new_of_def Let_def Unorm_nth[of j U dt] assms(1))


lemma scaled_inside:
  fixes r :: "'a::real_normed_field list"
  assumes "sqnorm r \<le> 1"
  shows "map (\<lambda>u. u / of_real (max (sqnorm r) 1)) r = r"
  using assms by (simp add: max_absorb2)

lemma scaled_outside:
  fixes r :: "'a::real_normed_field list"
  assumes "1 < sqnorm r"
  shows "map (\<lambda>u. u / of_real (max (sqnorm r) 1)) r = map (\<lambda>u. u / of_real (sqnorm r)) r"
    and "sqnorm (map (\<lambda>u. u / of_real (sqnorm r)) r) = 1 / sqnorm r"
    and "sqnorm (map (\<lambda>u. u / of_real (sqnorm r)) r) < 1"
proof -
  show "map (\<lambda>u. u / of_real (max (sqnorm r) 1)) r = map (\<lambda>u. u / of_real (sqnorm r)) r"
    using assms by (simp add: max_absorb1)
  show q: "sqnorm (map (\<lambda>u. u / of_real (sqnorm r)) r) = 1 / sqnorm r"
    using assms by (simp add: sqnorm_scaled power2_eq_square)
  show "sqnorm (map (\<lambda>u. u / of_real (sqnorm r)) r) < 1"
    using assms by (simp add: q)
qed



text \<open>
  C3, as the code has it. \<open>Unorm\<close> is the squared norm of the atom, and line 127
  divides the atom by \<open>max(Unorm, 1)\<close>. An atom of \<open>U\<close> inside the unit ball (squared
  norm at most 1) is left as it is. An atom whose squared norm \<open>s\<close> exceeds 1 is
  divided by \<open>s\<close>, not by the norm: the atom of \<open>D_new\<close> has squared norm \<open>1 / s\<close>,
  which is below 1, so it lies strictly inside the unit ball and not on the unit
  sphere. This holds for the real and for the complex element type.
\<close>

theorem atoms_divided_by_squared_norm:
  fixes Ur :: "real array2" and Uc :: "complex array2"
  shows "(j < length Ur \<longrightarrow>
            (sqnorm (Ur ! j) \<le> 1 \<longrightarrow>
               D_new_of float64 (map (map Fin) Ur) ! j = map Fin (Ur ! j)) \<and>
            (1 < sqnorm (Ur ! j) \<longrightarrow>
               D_new_of float64 (map (map Fin) Ur) ! j
                 = map Fin (map (\<lambda>u. u / sqnorm (Ur ! j)) (Ur ! j)) \<and>
               sqnorm (map (\<lambda>u. u / sqnorm (Ur ! j)) (Ur ! j)) = 1 / sqnorm (Ur ! j) \<and>
               sqnorm (map (\<lambda>u. u / sqnorm (Ur ! j)) (Ur ! j)) < 1)) \<and>
         (k < length Uc \<longrightarrow>
            (sqnorm (Uc ! k) \<le> 1 \<longrightarrow>
               D_new_of complex128 (map (map Fin) Uc) ! k = map Fin (Uc ! k)) \<and>
            (1 < sqnorm (Uc ! k) \<longrightarrow>
               D_new_of complex128 (map (map Fin) Uc) ! k
                 = map Fin (map (\<lambda>u. u / of_real (sqnorm (Uc ! k))) (Uc ! k)) \<and>
               sqnorm (map (\<lambda>u. u / of_real (sqnorm (Uc ! k))) (Uc ! k)) = 1 / sqnorm (Uc ! k) \<and>
               sqnorm (map (\<lambda>u. u / of_real (sqnorm (Uc ! k))) (Uc ! k)) < 1))"
proof (intro conjI impI)
  assume j: "j < length Ur"
  then have row: "j < length (map (map Fin) Ur)" "map (map Fin) Ur ! j = map Fin (Ur ! j)"
    by simp_all
  note d = D_new_row[of float64, OF Unorm_float64 row]
  show "D_new_of float64 (map (map Fin) Ur) ! j = map Fin (Ur ! j)" if "sqnorm (Ur ! j) \<le> 1"
    by (simp only: d scaled_inside[OF that])
  show "D_new_of float64 (map (map Fin) Ur) ! j
          = map Fin (map (\<lambda>u. u / sqnorm (Ur ! j)) (Ur ! j))" if "1 < sqnorm (Ur ! j)"
    by (simp only: d[unfolded of_real_eq_id id_apply]
          scaled_outside(1)[OF that, unfolded of_real_eq_id id_apply])
  show "sqnorm (map (\<lambda>u. u / sqnorm (Ur ! j)) (Ur ! j)) = 1 / sqnorm (Ur ! j)"
    if "1 < sqnorm (Ur ! j)"
    by (rule scaled_outside(2)[OF that, unfolded of_real_eq_id id_apply])
  show "sqnorm (map (\<lambda>u. u / sqnorm (Ur ! j)) (Ur ! j)) < 1" if "1 < sqnorm (Ur ! j)"
    by (rule scaled_outside(3)[OF that, unfolded of_real_eq_id id_apply])
next
  assume k: "k < length Uc"
  then have row: "k < length (map (map Fin) Uc)" "map (map Fin) Uc ! k = map Fin (Uc ! k)"
    by simp_all
  note d = D_new_row[of complex128, OF Unorm_complex128 row]
  show "D_new_of complex128 (map (map Fin) Uc) ! k = map Fin (Uc ! k)" if "sqnorm (Uc ! k) \<le> 1"
    by (simp only: d scaled_inside[OF that])
  show "D_new_of complex128 (map (map Fin) Uc) ! k
          = map Fin (map (\<lambda>u. u / of_real (sqnorm (Uc ! k))) (Uc ! k))" if "1 < sqnorm (Uc ! k)"
    by (simp only: d scaled_outside(1)[OF that])
  show "sqnorm (map (\<lambda>u. u / of_real (sqnorm (Uc ! k))) (Uc ! k)) = 1 / sqnorm (Uc ! k)"
    if "1 < sqnorm (Uc ! k)"
    by (rule scaled_outside(2)[OF that, unfolded of_real_eq_id id_apply])
  show "sqnorm (map (\<lambda>u. u / of_real (sqnorm (Uc ! k))) (Uc ! k)) < 1" if "1 < sqnorm (Uc ! k)"
    by (rule scaled_outside(3)[OF that, unfolded of_real_eq_id id_apply])
qed

text \<open>
  Two atoms for each element type, the first outside the unit ball (squared norm 4),
  the second inside (squared norm 1/4).
\<close>

theorem atoms_divided_by_squared_norm_witness:
  "(0::nat) < length [[2], [1 / 2 :: real]] \<and> 1 < sqnorm ([[2], [1 / 2 :: real]] ! 0) \<and>
   D_new_of float64 (map (map Fin) [[2], [1 / 2]]) ! 0 = map Fin [1 / 2] \<and>
   sqnorm [1 / 2 :: real] = 1 / 4 \<and>
   (1::nat) < length [[2], [1 / 2 :: real]] \<and> sqnorm ([[2], [1 / 2 :: real]] ! 1) \<le> 1 \<and>
   D_new_of float64 (map (map Fin) [[2], [1 / 2]]) ! 1 = map Fin [1 / 2] \<and>
   (0::nat) < length [[2 * \<i>], [\<i> / 2]] \<and> 1 < sqnorm ([[2 * \<i>], [\<i> / 2]] ! 0) \<and>
   D_new_of complex128 (map (map Fin) [[2 * \<i>], [\<i> / 2]]) ! 0 = map Fin [\<i> / 2] \<and>
   sqnorm [\<i> / 2] = 1 / 4 \<and>
   (1::nat) < length [[2 * \<i>], [\<i> / 2]] \<and> sqnorm ([[2 * \<i>], [\<i> / 2]] ! 1) \<le> 1 \<and>
   D_new_of complex128 (map (map Fin) [[2 * \<i>], [\<i> / 2]]) ! 1 = map Fin [\<i> / 2]"
  using atoms_divided_by_squared_norm[of 0 "[[2], [1 / 2]]" 0 "[[2 * \<i>], [\<i> / 2]]"]
        atoms_divided_by_squared_norm[of 1 "[[2], [1 / 2]]" 1 "[[2 * \<i>], [\<i> / 2]]"]
  by (simp add: sqnorm_def norm_mult norm_divide power2_eq_square)

text \<open>
  The claim as the spec words it fails: the atom \<open>[2]\<close> has squared norm 4, and the
  atom of \<open>D_new\<close> is \<open>[1/2]\<close>, of squared norm 1/4 and norm 1/2, not 1.
\<close>

theorem unit_norm_counterexample:
  "1 < sqnorm ([[2 :: real]] ! 0) \<and> D_new_of float64 [[Fin 2]] ! 0 = [Fin (1 / 2)] \<and>
   sqnorm [1 / 2 :: real] \<noteq> 1"
  by (simp add: eval_defs sqnorm_def power2_eq_square)

subsection \<open>What a pass through the body leaves behind\<close>

lemma dictionary_update_parts:
  assumes "dictionary_update dt a it s m xb yb mb = (A', B', E', D_new)"
  shows "A' = update_A dt m (shape0 (arg_D a)) it (st_A s) xb"
    and "D_new = D_new_of dt (U_of (shape0 (arg_D a)) (shape1 (arg_D a)) A' B' (st_D s))"
    and "arg_mask a = None \<Longrightarrow> E' = st_E s"
    and "arg_mask a = None \<Longrightarrow>
           B' = update_B dt m (shape0 (arg_D a)) (shape1 (arg_D a)) it (st_B s) xb yb"
    and "arg_mask a \<noteq> None \<Longrightarrow>
           (E', B') = update_EB_mask dt m (shape0 (arg_D a)) (shape1 (arg_D a)) (st_E s)
                        (st_B s) xb yb mb"
  using assms
  by (auto simp: dictionary_update_def Let_def split: prod.splits if_splits)

lemma body_Continue:
  assumes "body dt ext a it s = Inr (Continue s')"
  shows "\<exists>rng' indexes x' xb yb mb A' B' E' D_new.
           sparse_coding ext a s = Inr (rng', indexes, x', xb, yb, mb) \<and>
           dictionary_update dt a it s (length indexes) xb yb mb = (A', B', E', D_new) \<and>
           s' = \<lparr>st_rng = rng', st_x = x', st_D = D_new, st_A = A', st_B = B', st_E = E'\<rparr>"
proof -
  from assms obtain rng' indexes x' xb yb mb where
    sc: "sparse_coding ext a s = Inr (rng', indexes, x', xb, yb, mb)"
    by (cases "sparse_coding ext a s") (auto simp: body_def split: if_splits)
  obtain A' B' E' D_new where
    du: "dictionary_update dt a it s (length indexes) xb yb mb = (A', B', E', D_new)"
    by (cases "dictionary_update dt a it s (length indexes) xb yb mb") auto
  from assms sc du
  have "s' = \<lparr>st_rng = rng', st_x = x', st_D = D_new, st_A = A', st_B = B', st_E = E'\<rparr>"
    by (auto simp: body_def split: if_splits sum.splits)
  with sc du show ?thesis by blast
qed

lemma body_Return:
  assumes "body dt ext a it s = Inr (Return (n, D', x'))"
  shows "n = it \<and> (D' = st_D s \<or> (\<exists>U. D' = D_new_of dt U))"
proof (cases "interrupt ext it = Some At_start")
  case True
  with assms show ?thesis by (simp add: body_def)
next
  case False
  with assms obtain rng' indexes x1 xb yb mb where
    sc: "sparse_coding ext a s = Inr (rng', indexes, x1, xb, yb, mb)"
    by (cases "sparse_coding ext a s") (auto simp: body_def split: if_splits)
  obtain A' B' E' D_new where
    du: "dictionary_update dt a it s (length indexes) xb yb mb = (A', B', E', D_new)"
    by (cases "dictionary_update dt a it s (length indexes) xb yb mb") auto
  from assms False sc du have "n = it \<and> (D' = st_D s \<or> D' = D_new)"
    by (auto simp: body_def split: if_splits sum.splits)
  with dictionary_update_parts(2)[OF du] show ?thesis by blast
qed

lemma lasso_stage_length:
  assumes "lasso_stage ext a F D_arr indexes xb yb = Inr (xb', mb)"
    and "length xb = length indexes"
  shows "length xb' = length indexes"
  using assms
  by (auto simp: lasso_stage_def Let_def split: option.splits sum.splits prod.splits if_splits)

lemma sparse_coding_length:
  assumes "sparse_coding ext a s = Inr (rng', indexes, x', xb, yb, mb)"
  shows "length xb = length indexes"
proof -
  from assms obtain x0 y0 where t: "take_rows (st_x s) indexes = Inr x0"
    and l: "lasso_stage ext a (shape0 (arg_D a)) (st_D s) indexes x0 y0 = Inr (xb, mb)"
    by (auto simp: sparse_coding_def Let_def split: prod.splits sum.splits)
  from take_rows_Inr[OF t] have "length x0 = length indexes" by simp
  from lasso_stage_length[OF l this] show ?thesis .
qed

lemma init_state:
  assumes "init ext a = Inr s0"
  shows "st_A s0 = zeros2 (shape0 (arg_D a)) (shape0 (arg_D a))"
    and "st_D s0 = map (map Fin) (arg_D a)"
    and "st_B s0 = map (map Fin) (zeros2 (shape0 (arg_D a)) (shape1 (arg_D a)))"
  using assms by (auto simp: init_def Let_def split: if_splits)

subsection \<open>The dictionary that \<open>solve\<close> returns\<close>






subsection \<open>The statistic \<open>A\<close>\<close>

lemma upt_0_2: "[0..<2] = [0, 1]"
  by (simp add: numeral_2_eq_2)

lemma upt_0_1: "[0..<1] = [0]"
  by simp

lemma xT_nth:
  "j < F \<Longrightarrow> r < m \<Longrightarrow> xT_of dt m F xb ! j ! r = herm dt (xb ! r ! j)"
  by (simp add: xT_of_def T_of_def herm_def Let_def)

lemma dot_xT_nth:
  assumes "j < F" and "c < K"
  shows "dot F m K (xT_of dt m F xb) Y ! j ! c = hdot dt m xb Y j c"
proof -
  have eq: "map (\<lambda>l. xT_of dt m F xb ! j ! l * Y ! l ! c) [0..<m]
              = map (\<lambda>r. herm dt (xb ! r ! j) * Y ! r ! c) [0..<m]"
    by (rule map_cong) (simp_all add: xT_nth assms)
  have "dot F m K (xT_of dt m F xb) Y ! j ! c
          = sum_list (map (\<lambda>l. xT_of dt m F xb ! j ! l * Y ! l ! c) [0..<m])"
    using assms by (simp add: dot_def)
  also have "\<dots> = hdot dt m xb Y j c"
    unfolding hdot_def by (simp only: eq)
  finally show ?thesis .
qed

lemma update_A_eq:
  "update_A dt m F it A xb =
     map (\<lambda>j. map (\<lambda>k. of_real (1 - 1 / real_of_int it) * A ! j ! k
                         + of_real (1 / real_of_int it) * hdot dt m xb xb j k) [0..<F]) [0..<F]"
  unfolding update_A_def Let_def
  by (intro map_cong refl) (simp add: dot_xT_nth)

lemma update_A_nth:
  "j < F \<Longrightarrow> k < F \<Longrightarrow>
     update_A dt m F it A xb ! j ! k =
       of_real (1 - 1 / real_of_int it) * A ! j ! k + of_real (1 / real_of_int it) * hdot dt m xb xb j k"
  by (simp add: update_A_eq)

lemma average_step:
  fixes S g :: "'a::real_normed_field"
  assumes "n = 0 \<Longrightarrow> S = 0"
  shows "of_real (1 - 1 / real_of_int (int n + 1)) * (S / of_nat n)
           + of_real (1 / real_of_int (int n + 1)) * g = (S + g) / of_nat (Suc n)"
proof (cases "n = 0")
  case True
  with assms show ?thesis by simp
next
  case False
  define N :: 'a where "N = of_nat n"
  have w: "1 - 1 / real_of_int (int n + 1) = real n / (real n + 1)"
    by (simp add: field_simps)
  have n0: "N \<noteq> 0"
    using False by (simp add: N_def)
  have n1: "1 + N \<noteq> 0"
    using of_nat_neq_0[of n, where 'a = 'a] by (simp add: N_def)
  have a: "(of_real (real n / (real n + 1)) :: 'a) = N / (1 + N)"
    by (simp add: N_def add.commute)
  have b: "(of_real (1 / (real n + 1)) :: 'a) = 1 / (1 + N)"
    by (simp add: N_def add.commute)
  have c: "N / (1 + N) * (S / N) = S / (1 + N)"
    using n0 by simp
  have "of_real (real n / (real n + 1)) * (S / N) + of_real (1 / (real n + 1)) * g
          = (S + g) / (1 + N)"
    by (simp only: a b c) (simp add: add_divide_distrib)
  with w show ?thesis
    by (simp add: N_def add.commute)
qed

lemma running_average_nth:
  "j < F \<Longrightarrow> k < F \<Longrightarrow>
     running_average dt F xbs ! j ! k =
       sum_list (map (\<lambda>xb. hdot dt (length xb) xb xb j k) xbs) / of_nat (length xbs)"
  by (simp add: running_average_def)

lemma running_average_step:
  "update_A dt (length xb) F (int (length pre) + 1) (running_average dt F pre) xb
     = running_average dt F (pre @ [xb])"
proof -
  have entry:
    "of_real (1 - 1 / real_of_int (int (length pre) + 1)) * running_average dt F pre ! j ! k
       + of_real (1 / real_of_int (int (length pre) + 1)) * hdot dt (length xb) xb xb j k
     = sum_list (map (\<lambda>xb. hdot dt (length xb) xb xb j k) (pre @ [xb]))
         / of_nat (length (pre @ [xb]))"
    if "j < F" "k < F" for j k
  proof -
    have e: "length pre = 0 \<Longrightarrow> sum_list (map (\<lambda>xb. hdot dt (length xb) xb xb j k) pre) = 0"
      by simp
    have "sum_list (map (\<lambda>xb. hdot dt (length xb) xb xb j k) (pre @ [xb]))
            = sum_list (map (\<lambda>xb. hdot dt (length xb) xb xb j k) pre)
                + hdot dt (length xb) xb xb j k"
      by simp
    moreover have "length (pre @ [xb]) = Suc (length pre)"
      by simp
    ultimately show ?thesis
      by (simp only: running_average_nth[OF that] average_step[OF e])
  qed
  have "update_A dt (length xb) F (int (length pre) + 1) (running_average dt F pre) xb
          = map (\<lambda>j. map (\<lambda>k. sum_list (map (\<lambda>xb. hdot dt (length xb) xb xb j k) (pre @ [xb]))
                               / of_nat (length (pre @ [xb]))) [0..<F]) [0..<F]"
    unfolding update_A_eq
    by (intro map_cong refl entry) simp_all
  then show ?thesis
    by (simp only: running_average_def)
qed

lemma running_average_Nil: "running_average dt F [] = zeros2 F F"
  by (simp add: running_average_def zeros2_def map_replicate_const)

lemma run_average:
  "run dt ext a it n s = Inr (Continue s') \<Longrightarrow>
   st_A s = running_average dt (shape0 (arg_D a)) pre \<Longrightarrow>
   it = int (length pre) + 1 \<Longrightarrow>
   st_A s' = running_average dt (shape0 (arg_D a)) (pre @ pass_codes dt ext a it n s) \<and>
   length (pass_codes dt ext a it n s) = n"
proof (induction n arbitrary: it s pre)
  case 0
  then show ?case by simp
next
  case (Suc n)
  from Suc.prems(1) obtain s1 where b: "body dt ext a it s = Inr (Continue s1)"
    and r: "run dt ext a (it + 1) n s1 = Inr (Continue s')"
    by (auto split: sum.splits outcome.splits)
  from body_Continue[OF b] obtain rng' indexes x' xb yb mb A' B' E' D_new where
    sc: "sparse_coding ext a s = Inr (rng', indexes, x', xb, yb, mb)"
    and du: "dictionary_update dt a it s (length indexes) xb yb mb = (A', B', E', D_new)"
    and s1: "st_A s1 = A'"
    by auto
  have "st_A s1 = update_A dt (length xb) (shape0 (arg_D a)) (int (length pre) + 1)
                    (running_average dt (shape0 (arg_D a)) pre) xb"
    using dictionary_update_parts(1)[OF du] s1 sparse_coding_length[OF sc] Suc.prems(2,3)
    by simp
  then have A1: "st_A s1 = running_average dt (shape0 (arg_D a)) (pre @ [xb])"
    by (simp only: running_average_step)
  have it1: "it + 1 = int (length (pre @ [xb])) + 1"
    using Suc.prems(3) by simp
  have codes: "pass_codes dt ext a it (Suc n) s = xb # pass_codes dt ext a (it + 1) n s1"
    using sc b by simp
  from Suc.IH[OF r A1 it1] codes show ?case
    by simp
qed

text \<open>
  C6. The loop starts with \<open>A\<close> zero and the counter 1. After \<open>n \<ge> 1\<close> passes that
  went on to the next iteration, the \<open>A\<close> of the loop is exactly the uniform average
  \<open>(1 / n) \<cdot> \<Sum>\<^sub>i Xb\<^sub>i\<^sup>H \<cdot> Xb\<^sub>i\<close> of the contributions of the minibatch codes \<open>Xb\<^sub>1, \<dots>, Xb\<^sub>n\<close> of
  these passes, computed directly. The codes are whatever the solver returned (the
  warm start for \<open>fista\<close>), the minibatches may have any numbers of rows, the element
  type may be real or complex, and a mask does not change \<open>A\<close>. (Over the real and
  complex numbers; floating-point rounding is not modelled.)
\<close>

theorem A_is_running_average:
  assumes "init ext a = Inr s0"
    and "run dt ext a 1 n s0 = Inr (Continue s)"
    and "0 < n"
  shows "st_A s = running_average dt (shape0 (arg_D a)) (pass_codes dt ext a 1 n s0) \<and>
         length (pass_codes dt ext a 1 n s0) = n"
proof -
  have "st_A s0 = running_average dt (shape0 (arg_D a)) []"
    using init_state(1)[OF assms(1)] by (simp add: running_average_Nil)
  from run_average[OF assms(2) this] show ?thesis by simp
qed

text \<open>
  Two passes on one sample with two atoms; the solver adds 1 to every code, so the
  minibatch codes are \<open>[[1, 1]]\<close> and \<open>[[2, 2]]\<close> and every entry of \<open>A\<close> is
  \<open>(1 + 4) / 2\<close>.
\<close>

theorem A_is_running_average_witness:
  "init ext_incr avg_args = Inr (avg_state 0 [[0, 0]] [[0, 0], [0, 0]]) \<and>
   run float64 ext_incr avg_args 1 2 (avg_state 0 [[0, 0]] [[0, 0], [0, 0]])
     = Inr (Continue (avg_state 2 [[2, 2]] [[5 / 2, 5 / 2], [5 / 2, 5 / 2]])) \<and>
   (0::nat) < 2 \<and>
   (st_A (avg_state 2 [[2, 2]] [[5 / 2, 5 / 2], [5 / 2, 5 / 2]])
      = running_average float64 (shape0 (arg_D avg_args))
          (pass_codes float64 ext_incr avg_args 1 2 (avg_state 0 [[0, 0]] [[0, 0], [0, 0]])) \<and>
    length (pass_codes float64 ext_incr avg_args 1 2 (avg_state 0 [[0, 0]] [[0, 0], [0, 0]])) = 2) \<and>
   pass_codes float64 ext_incr avg_args 1 2 (avg_state 0 [[0, 0]] [[0, 0], [0, 0]])
     = [[[1, 1]], [[2, 2]]] \<and>
   running_average float64 2 [[[1, 1]], [[2, 2]]] = [[5 / 2, 5 / 2], [5 / 2, 5 / 2 :: real]]"
proof -
  let ?s0 = "avg_state 0 [[0, 0]] [[0, 0], [0, 0]]"
  let ?s1 = "avg_state 1 [[1, 1]] [[1, 1], [1, 1]]"
  let ?s2 = "avg_state 2 [[2, 2]] [[5 / 2, 5 / 2], [5 / 2, 5 / 2]]"
  have i: "init ext_incr avg_args = Inr ?s0"
    by (simp add: eval_defs avg_args_def avg_state_def ext_incr_def upt_0_2)
  have b1: "body float64 ext_incr avg_args 1 ?s0 = Inr (Continue ?s1)"
    by (simp add: eval_defs avg_args_def avg_state_def ext_incr_def upt_0_2)
  have b2: "body float64 ext_incr avg_args 2 ?s1 = Inr (Continue ?s2)"
    by (simp add: eval_defs avg_args_def avg_state_def ext_incr_def upt_0_2)
  have r: "run float64 ext_incr avg_args 1 2 ?s0 = Inr (Continue ?s2)"
    using b1 b2 by (simp add: numeral_2_eq_2)
  have two: "(0::nat) < 2" by simp
  have sc1: "sparse_coding ext_incr avg_args ?s0 = Inr (1, [0], [[1, 1]], [[1, 1]], [[0]], [])"
    by (simp add: eval_defs avg_args_def avg_state_def ext_incr_def)
  have sc2: "sparse_coding ext_incr avg_args ?s1 = Inr (2, [0], [[2, 2]], [[2, 2]], [[0]], [])"
    by (simp add: eval_defs avg_args_def avg_state_def ext_incr_def)
  have pc: "pass_codes float64 ext_incr avg_args 1 2 ?s0 = [[[1, 1]], [[2, 2]]]"
    using b1 b2 sc1 sc2 by (simp add: numeral_2_eq_2)
  have ra: "running_average float64 2 [[[1, 1]], [[2, 2]]]
              = [[5 / 2, 5 / 2], [5 / 2, 5 / 2 :: real]]"
    by (simp add: running_average_def hdot_def herm_def float64_def upt_0_2)
  show ?thesis
    using i r two A_is_running_average[OF i r two] pc ra by blast
qed

subsection \<open>\<open>A\<close> is Hermitian\<close>

lemma cj_sum_list:
  assumes "cj 0 = 0" and "\<And>u v. cj (u + v) = cj u + cj v"
  shows "cj (sum_list (map f xs)) = sum_list (map (\<lambda>x. cj (f x)) xs)"
  by (induction xs) (simp_all add: assms)

lemma hdot_flip:
  fixes cj :: "'a::real_normed_field \<Rightarrow> 'a"
  assumes "herm dt = cj" and "cj 0 = 0" and "\<And>u v. cj (u + v) = cj u + cj v"
    and "\<And>u v. cj (u * v) = cj u * cj v" and "\<And>u. cj (cj u) = u"
  shows "cj (hdot dt m X X k j) = hdot dt m X X j k"
proof -
  have "cj (hdot dt m X X k j)
          = sum_list (map (\<lambda>r. cj (cj (X ! r ! k) * X ! r ! j)) [0..<m])"
    unfolding hdot_def assms(1)
    by (rule cj_sum_list[of cj, OF assms(2,3)])
  also have "\<dots> = sum_list (map (\<lambda>r. cj (X ! r ! j) * X ! r ! k) [0..<m])"
    by (simp only: assms(4,5) mult.commute)
  finally show ?thesis
    unfolding hdot_def assms(1) .
qed

lemma update_A_hermitian:
  fixes cj :: "'a::real_normed_field \<Rightarrow> 'a"
  assumes "herm dt = cj" and "cj 0 = 0" and "\<And>u v. cj (u + v) = cj u + cj v"
    and "\<And>u v. cj (u * v) = cj u * cj v" and "\<And>u. cj (cj u) = u"
    and "\<And>r. cj (of_real r) = of_real r"
    and "\<forall>j<F. \<forall>k<F. A ! j ! k = cj (A ! k ! j)"
  shows "\<forall>j<F. \<forall>k<F. update_A dt m F it A xb ! j ! k = cj (update_A dt m F it A xb ! k ! j)"
proof (intro allI impI)
  fix j k assume jk: "j < F" "k < F"
  let ?w = "1 / real_of_int it"
  have a: "cj (A ! k ! j) = A ! j ! k"
    by (rule assms(7)[rule_format, OF jk, symmetric])
  have h: "cj (hdot dt m xb xb k j) = hdot dt m xb xb j k"
    by (rule hdot_flip[of dt cj, OF assms(1-5)])
  have "cj (update_A dt m F it A xb ! k ! j)
          = cj (of_real (1 - ?w) * A ! k ! j + of_real ?w * hdot dt m xb xb k j)"
    using jk by (simp only: update_A_nth)
  also have "\<dots> = of_real (1 - ?w) * cj (A ! k ! j) + of_real ?w * cj (hdot dt m xb xb k j)"
    by (simp only: assms(3,4,6))
  also have "\<dots> = update_A dt m F it A xb ! j ! k"
    using jk by (simp only: a h update_A_nth)
  finally show "update_A dt m F it A xb ! j ! k = cj (update_A dt m F it A xb ! k ! j)"
    by simp
qed

lemma run_hermitian:
  fixes cj :: "'a::real_normed_field \<Rightarrow> 'a"
  assumes "herm dt = cj" and "cj 0 = 0" and "\<And>u v. cj (u + v) = cj u + cj v"
    and "\<And>u v. cj (u * v) = cj u * cj v" and "\<And>u. cj (cj u) = u"
    and "\<And>r. cj (of_real r) = of_real r"
  shows "run dt ext a it n s = Inr (Continue s') \<Longrightarrow>
         \<forall>j<shape0 (arg_D a). \<forall>k<shape0 (arg_D a). st_A s ! j ! k = cj (st_A s ! k ! j) \<Longrightarrow>
         \<forall>j<shape0 (arg_D a). \<forall>k<shape0 (arg_D a). st_A s' ! j ! k = cj (st_A s' ! k ! j)"
proof (induction n arbitrary: it s)
  case 0
  from "0.prems"(1) have eq: "s' = s" by simp
  from "0.prems"(2) show ?case unfolding eq .
next
  case (Suc n)
  from Suc.prems(1) obtain s1 where b: "body dt ext a it s = Inr (Continue s1)"
    and r: "run dt ext a (it + 1) n s1 = Inr (Continue s')"
    by (auto split: sum.splits outcome.splits)
  from body_Continue[OF b] obtain m xb yb mb A' B' E' D_new
    where du: "dictionary_update dt a it s m xb yb mb = (A', B', E', D_new)"
    and "st_A s1 = A'"
    by auto
  with dictionary_update_parts(1)[OF du]
  have eq: "st_A s1 = update_A dt m (shape0 (arg_D a)) it (st_A s) xb"
    by simp
  have "\<forall>j<shape0 (arg_D a). \<forall>k<shape0 (arg_D a). st_A s1 ! j ! k = cj (st_A s1 ! k ! j)"
    unfolding eq by (rule update_A_hermitian[of dt cj, OF assms Suc.prems(2)])
  from Suc.IH[OF r this] show ?case .
qed

lemma herm_float64: "herm float64 = (\<lambda>u. u)"
  by (simp add: herm_def float64_def fun_eq_iff)

lemma herm_complex128: "herm complex128 = cnj"
  by (simp add: herm_def complex128_def fun_eq_iff)

text \<open>
  C10. \<open>A\<close> starts as the zero matrix and every pass that goes on to the next
  iteration replaces it by line 111. After any number of iterations \<open>A\<close> is symmetric
  for a real element type and equal to its conjugate transpose for a complex one; the
  diagonal of a complex \<open>A\<close>, which line 120 takes as the normaliser of the atoms, is
  real.
\<close>

theorem A_stays_hermitian:
  fixes ext_r :: "(real, 'r) extern" and ext_c :: "(complex, 'q) extern"
  shows "(init ext_r a_r = Inr s0_r \<and> run float64 ext_r a_r 1 n_r s0_r = Inr (Continue s_r) \<and>
          j < shape0 (arg_D a_r) \<and> k < shape0 (arg_D a_r)
            \<longrightarrow> st_A s_r ! j ! k = st_A s_r ! k ! j) \<and>
         (init ext_c a_c = Inr s0_c \<and> run complex128 ext_c a_c 1 n_c s0_c = Inr (Continue s_c) \<and>
          p < shape0 (arg_D a_c) \<and> q < shape0 (arg_D a_c)
            \<longrightarrow> st_A s_c ! p ! q = cnj (st_A s_c ! q ! p) \<and> Im (st_A s_c ! p ! p) = 0)"
proof (intro conjI impI)
  assume h: "init ext_r a_r = Inr s0_r \<and> run float64 ext_r a_r 1 n_r s0_r = Inr (Continue s_r) \<and>
          j < shape0 (arg_D a_r) \<and> k < shape0 (arg_D a_r)"
  then have i: "init ext_r a_r = Inr s0_r"
    and r: "run float64 ext_r a_r 1 n_r s0_r = Inr (Continue s_r)"
    and jk: "j < shape0 (arg_D a_r)" "k < shape0 (arg_D a_r)"
    by simp_all
  have z: "\<forall>j<shape0 (arg_D a_r). \<forall>k<shape0 (arg_D a_r). st_A s0_r ! j ! k = st_A s0_r ! k ! j"
    by (simp add: init_state(1)[OF i] zeros2_def)
  have all: "\<forall>j<shape0 (arg_D a_r). \<forall>k<shape0 (arg_D a_r). st_A s_r ! j ! k = st_A s_r ! k ! j"
    by (rule run_hermitian[of float64 "\<lambda>u. u", OF herm_float64 _ _ _ _ _ r z]) simp_all
  show "st_A s_r ! j ! k = st_A s_r ! k ! j"
    by (rule all[rule_format, OF jk])
next
  assume h: "init ext_c a_c = Inr s0_c \<and> run complex128 ext_c a_c 1 n_c s0_c = Inr (Continue s_c) \<and>
          p < shape0 (arg_D a_c) \<and> q < shape0 (arg_D a_c)"
  then have i: "init ext_c a_c = Inr s0_c"
    and r: "run complex128 ext_c a_c 1 n_c s0_c = Inr (Continue s_c)"
    and pq: "p < shape0 (arg_D a_c)" "q < shape0 (arg_D a_c)"
    by simp_all
  have z: "\<forall>j<shape0 (arg_D a_c). \<forall>k<shape0 (arg_D a_c). st_A s0_c ! j ! k = cnj (st_A s0_c ! k ! j)"
    by (simp add: init_state(1)[OF i] zeros2_def)
  have all: "\<forall>j<shape0 (arg_D a_c). \<forall>k<shape0 (arg_D a_c). st_A s_c ! j ! k = cnj (st_A s_c ! k ! j)"
    by (rule run_hermitian[of complex128 cnj, OF herm_complex128 _ _ _ _ _ r z]) simp_all
  show "st_A s_c ! p ! q = cnj (st_A s_c ! q ! p)"
    by (rule all[rule_format, OF pq])
  have "st_A s_c ! p ! p = cnj (st_A s_c ! p ! p)"
    by (rule all[rule_format, OF pq(1) pq(1)])
  then have "cnj (st_A s_c ! p ! p) = st_A s_c ! p ! p"
    by (rule sym)
  then have "st_A s_c ! p ! p \<in> \<real>"
    by (simp only: Reals_cnj_iff)
  then show "Im (st_A s_c ! p ! p) = 0"
    by (simp only: complex_is_Real_iff)
qed

text \<open>Two atoms, one pass, real codes \<open>[1, 2]\<close> and complex codes \<open>[1, \<i>]\<close>.\<close>

theorem A_stays_hermitian_witness:
  "init (ext_fixed [[1, 2 :: real]]) (args_ex [[1]] [[1], [0]] 0 3 ''ista'' None)
     = Inr \<lparr>st_rng = 0, st_x = [[0, 0]], st_D = [[Fin 1], [Fin 0]], st_A = [[0, 0], [0, 0]],
            st_B = [[Fin 0], [Fin 0]], st_E = []\<rparr> \<and>
   run float64 (ext_fixed [[1, 2]]) (args_ex [[1]] [[1], [0]] 0 3 ''ista'' None) 1 1
       \<lparr>st_rng = 0, st_x = [[0, 0]], st_D = [[Fin 1], [Fin 0]], st_A = [[0, 0], [0, 0]],
            st_B = [[Fin 0], [Fin 0]], st_E = []\<rparr>
     = Inr (Continue \<lparr>st_rng = 1, st_x = [[1, 2]], st_D = [[Fin 1], [Fin 0]], st_A = [[1, 2], [2, 4]],
            st_B = [[Fin 1], [Fin 2]], st_E = []\<rparr>) \<and>
   (0::nat) < shape0 (arg_D (args_ex [[1 :: real]] [[1], [0]] 0 3 ''ista'' None)) \<and>
   (1::nat) < shape0 (arg_D (args_ex [[1 :: real]] [[1], [0]] 0 3 ''ista'' None)) \<and>
   [[1, 2], [2, 4 :: real]] ! 0 ! 1 = [[1, 2], [2, 4]] ! 1 ! 0 \<and>
   init (ext_fixed [[1, \<i>]]) (args_ex [[1]] [[1], [0]] 0 3 ''ista'' None)
     = Inr \<lparr>st_rng = 0, st_x = [[0, 0]], st_D = [[Fin 1], [Fin 0]], st_A = [[0, 0], [0, 0]],
            st_B = [[Fin 0], [Fin 0]], st_E = []\<rparr> \<and>
   run complex128 (ext_fixed [[1, \<i>]]) (args_ex [[1]] [[1], [0]] 0 3 ''ista'' None) 1 1
       \<lparr>st_rng = 0, st_x = [[0, 0]], st_D = [[Fin 1], [Fin 0]], st_A = [[0, 0], [0, 0]],
            st_B = [[Fin 0], [Fin 0]], st_E = []\<rparr>
     = Inr (Continue \<lparr>st_rng = 1, st_x = [[1, \<i>]], st_D = [[Fin 1], [Fin 0]],
            st_A = [[1, \<i>], [- \<i>, 1]], st_B = [[Fin 1], [Fin (- \<i>)]], st_E = []\<rparr>) \<and>
   [[1, \<i>], [- \<i>, 1]] ! 0 ! 1 = cnj ([[1, \<i>], [- \<i>, 1]] ! 1 ! 0) \<and>
   Im ([[1, \<i>], [- \<i>, 1]] ! 0 ! 0) = 0"
proof -
  let ?ar = "args_ex [[1 :: real]] [[1], [0]] 0 3 ''ista'' None"
  let ?ac = "args_ex [[1 :: complex]] [[1], [0]] 0 3 ''ista'' None"
  let ?s0r = "\<lparr>st_rng = 0 :: nat, st_x = [[0, 0 :: real]], st_D = [[Fin 1], [Fin 0]],
                st_A = [[0, 0], [0, 0]], st_B = [[Fin 0], [Fin 0]], st_E = []\<rparr>"
  let ?s1r = "\<lparr>st_rng = 1 :: nat, st_x = [[1, 2 :: real]], st_D = [[Fin 1], [Fin 0]],
                st_A = [[1, 2], [2, 4]], st_B = [[Fin 1], [Fin 2]], st_E = []\<rparr>"
  let ?s0c = "\<lparr>st_rng = 0 :: nat, st_x = [[0, 0 :: complex]], st_D = [[Fin 1], [Fin 0]],
                st_A = [[0, 0], [0, 0]], st_B = [[Fin 0], [Fin 0]], st_E = []\<rparr>"
  let ?s1c = "\<lparr>st_rng = 1 :: nat, st_x = [[1, \<i>]], st_D = [[Fin 1], [Fin 0]],
                st_A = [[1, \<i>], [- \<i>, 1]], st_B = [[Fin 1], [Fin (- \<i>)]], st_E = []\<rparr>"
  have ir: "init (ext_fixed [[1, 2]]) ?ar = Inr ?s0r"
    by (simp add: eval_defs upt_0_2)
  have rr: "run float64 (ext_fixed [[1, 2]]) ?ar 1 1 ?s0r = Inr (Continue ?s1r)"
    by (simp add: eval_defs upt_0_2)
  have ic: "init (ext_fixed [[1, \<i>]]) ?ac = Inr ?s0c"
    by (simp add: eval_defs upt_0_2)
  have rc: "run complex128 (ext_fixed [[1, \<i>]]) ?ac 1 1 ?s0c = Inr (Continue ?s1c)"
    by (simp add: eval_defs upt_0_2)
  have b: "(0::nat) < shape0 (arg_D ?ar)" "(1::nat) < shape0 (arg_D ?ar)"
     "(0::nat) < shape0 (arg_D ?ac)" "(1::nat) < shape0 (arg_D ?ac)"
    by (simp_all add: eval_defs)
  from A_stays_hermitian[THEN conjunct1, rule_format, of "ext_fixed [[1, 2]]" ?ar ?s0r 1 ?s1r 0 1]
       A_stays_hermitian[THEN conjunct2, rule_format, of "ext_fixed [[1, \<i>]]" ?ac ?s0c 1 ?s1c 0 1]
       ir rr ic rc b
  show ?thesis by simp
qed

subsection \<open>The loop\<close>

lemma loop_run:
  "loop dt ext a it s =
     (case run dt ext a it (nat (arg_maxiter a - it)) s of
        Inl e \<Rightarrow> Inl e
      | Inr (Return r) \<Rightarrow> Inr r
      | Inr (Continue s') \<Rightarrow> Inr (arg_maxiter a, st_D s', st_x s'))"
proof (induction "nat (arg_maxiter a - it)" arbitrary: it s)
  case 0
  then have "\<not> it < arg_maxiter a" by simp
  with 0 show ?case
    by (simp add: loop.simps[of dt ext a it s])
next
  case (Suc k)
  then have lt: "it < arg_maxiter a" and k: "k = nat (arg_maxiter a - (it + 1))"
    by simp_all
  from Suc(2) have n: "nat (arg_maxiter a - it) = Suc k" by simp
  show ?case
  proof (cases "body dt ext a it s")
    case (Inl e)
    with lt show ?thesis
      by (simp add: loop.simps[of dt ext a it s] n)
  next
    case (Inr out)
    show ?thesis
    proof (cases out)
      case (Continue s1)
      with Inr lt Suc(1)[OF k, of s1] show ?thesis
        by (simp add: loop.simps[of dt ext a it s] n k)
    next
      case (Return r)
      with Inr lt show ?thesis
        by (simp add: loop.simps[of dt ext a it s] n)
    qed
  qed
qed

lemma run_Return:
  "run dt ext a it k s = Inr (Return (n, D', x')) \<Longrightarrow> it \<le> n \<and> n < it + int k"
proof (induction k arbitrary: it s)
  case 0
  then show ?case by simp
next
  case (Suc k)
  show ?case
  proof (cases "body dt ext a it s")
    case (Inl e)
    with Suc.prems show ?thesis by simp
  next
    case (Inr out)
    show ?thesis
    proof (cases out)
      case (Continue s1)
      with Inr Suc.prems have "run dt ext a (it + 1) k s1 = Inr (Return (n, D', x'))"
        by simp
      from Suc.IH[OF this] show ?thesis by simp
    next
      case (Return r)
      with Inr Suc.prems have "body dt ext a it s = Inr (Return (n, D', x'))"
        by simp
      from body_Return[OF this] show ?thesis by simp
    qed
  qed
qed

text \<open>
  C7. The loop passes through the body with the counter \<open>1, 2, \<dots>, maxiter - 1\<close>, in
  this order, and with no other value. If none of these \<open>maxiter - 1\<close> passes returns
  (convergence or interrupt) or raises, \<open>solve\<close> returns \<open>(maxiter, D, x)\<close> with the
  \<open>D\<close> and \<open>x\<close> the last pass left behind; the body is not executed with the
  counter \<open>maxiter\<close>. A pass that returns reports its own counter, which lies between
  1 and \<open>maxiter - 1\<close>, and an exception of a pass leaves \<open>solve\<close>.
\<close>

theorem loop_bounds:
  assumes "init ext a = Inr s0"
  shows "(run dt ext a 1 (nat (arg_maxiter a - 1)) s0 = Inr (Continue s') \<longrightarrow>
            solve dt ext a = Inr (arg_maxiter a, st_D s', st_x s')) \<and>
         (run dt ext a 1 (nat (arg_maxiter a - 1)) s0 = Inr (Return (n, D', x')) \<longrightarrow>
            solve dt ext a = Inr (n, D', x') \<and> 1 \<le> n \<and> n \<le> arg_maxiter a - 1) \<and>
         (run dt ext a 1 (nat (arg_maxiter a - 1)) s0 = Inl e \<longrightarrow> solve dt ext a = Inl e)"
proof -
  have s: "solve dt ext a = loop dt ext a 1 s0"
    using assms by (simp add: solve_def)
  show ?thesis
  proof (intro conjI impI)
    assume "run dt ext a 1 (nat (arg_maxiter a - 1)) s0 = Inr (Continue s')"
    then show "solve dt ext a = Inr (arg_maxiter a, st_D s', st_x s')"
      by (simp only: s loop_run[of dt ext a 1 s0] sum.case outcome.case)
  next
    assume r: "run dt ext a 1 (nat (arg_maxiter a - 1)) s0 = Inr (Return (n, D', x'))"
    then show "solve dt ext a = Inr (n, D', x')"
      by (simp only: s loop_run[of dt ext a 1 s0] sum.case outcome.case)
    from run_Return[OF r] show "1 \<le> n" by simp
    from run_Return[OF r] show "n \<le> arg_maxiter a - 1" by arith
  next
    assume "run dt ext a 1 (nat (arg_maxiter a - 1)) s0 = Inl e"
    then show "solve dt ext a = Inl e"
      by (simp only: s loop_run[of dt ext a 1 s0] sum.case outcome.case)
  qed
qed

text \<open>
  With \<open>maxiter = 3\<close>: two passes without convergence at tolerance 0, and \<open>solve\<close>
  returns the count 3; convergence in the second pass at tolerance 1/1000, and
  \<open>solve\<close> returns the count 2; an unknown solver choice, and the first pass raises.
\<close>

theorem loop_bounds_witness:
  "init (ext_fixed [[1]]) (args_ex [[1]] [[2 :: real]] 0 3 ''fista'' None)
     = Inr (state_ex [[0]] [[2]]) \<and>
   run float64 (ext_fixed [[1]]) (args_ex [[1]] [[2]] 0 3 ''fista'' None) 1
       (nat (arg_maxiter (args_ex [[1]] [[2 :: real]] 0 3 ''fista'' None) - 1))
       (state_ex [[0]] [[2]])
     = Inr (Continue ((state_ex [[0]] [[1 / 2]])\<lparr>st_rng := 2\<rparr>)) \<and>
   solve float64 (ext_fixed [[1]]) (args_ex [[1]] [[2]] 0 3 ''fista'' None)
     = Inr (3, [[Fin (1 / 2)]], [[0]]) \<and>
   init (ext_fixed [[1]]) (args_ex [[1]] [[2 :: real]] (1 / 1000) 3 ''fista'' None)
     = Inr (state_ex [[0]] [[2]]) \<and>
   run float64 (ext_fixed [[1]]) (args_ex [[1]] [[2]] (1 / 1000) 3 ''fista'' None) 1
       (nat (arg_maxiter (args_ex [[1]] [[2 :: real]] (1 / 1000) 3 ''fista'' None) - 1))
       (state_ex [[0]] [[2]])
     = Inr (Return (2, [[Fin (1 / 2)]], [[0]])) \<and>
   solve float64 (ext_fixed [[1]]) (args_ex [[1]] [[2]] (1 / 1000) 3 ''fista'' None)
     = Inr (2, [[Fin (1 / 2)]], [[0]]) \<and>
   (1::int) \<le> 2 \<and>
   2 \<le> arg_maxiter (args_ex [[1]] [[2 :: real]] (1 / 1000) 3 ''fista'' None) - 1 \<and>
   init (ext_fixed [[1]]) (args_ex [[1]] [[2 :: real]] 0 3 ''lars'' None)
     = Inr (state_ex [[0]] [[2]]) \<and>
   run float64 (ext_fixed [[1]]) (args_ex [[1]] [[2]] 0 3 ''lars'' None) 1
       (nat (arg_maxiter (args_ex [[1]] [[2 :: real]] 0 3 ''lars'' None) - 1))
       (state_ex [[0]] [[2]])
     = Inl NotImplementedError \<and>
   solve float64 (ext_fixed [[1]]) (args_ex [[1]] [[2]] 0 3 ''lars'' None)
     = Inl NotImplementedError"
proof -
  let ?a0 = "args_ex [[1]] [[2 :: real]] 0 3 ''fista'' None"
  let ?a1 = "args_ex [[1]] [[2 :: real]] (1 / 1000) 3 ''fista'' None"
  let ?a2 = "args_ex [[1]] [[2 :: real]] 0 3 ''lars'' None"
  let ?e = "ext_fixed [[1 :: real]]"
  let ?s0 = "state_ex [[0]] [[2 :: real]]"
  have i0: "init ?e ?a0 = Inr ?s0" and i1: "init ?e ?a1 = Inr ?s0" and i2: "init ?e ?a2 = Inr ?s0"
    by (simp_all add: eval_defs)
  have n: "nat (arg_maxiter ?a0 - 1) = Suc (Suc 0)" "nat (arg_maxiter ?a1 - 1) = Suc (Suc 0)"
    "nat (arg_maxiter ?a2 - 1) = Suc (Suc 0)"
    by (simp_all add: args_ex_def)
  have r0: "run float64 ?e ?a0 1 (nat (arg_maxiter ?a0 - 1)) ?s0
              = Inr (Continue ((state_ex [[0]] [[1 / 2]])\<lparr>st_rng := 2\<rparr>))"
    unfolding n by (simp add: eval_defs)
  have r1: "run float64 ?e ?a1 1 (nat (arg_maxiter ?a1 - 1)) ?s0
              = Inr (Return (2, [[Fin (1 / 2)]], [[0]]))"
    unfolding n by (simp add: eval_defs)
  have r2: "run float64 ?e ?a2 1 (nat (arg_maxiter ?a2 - 1)) ?s0 = Inl NotImplementedError"
    unfolding n by (simp add: eval_defs)
  from loop_bounds[OF i0, of float64, THEN conjunct1, rule_format, OF r0]
  have s0: "solve float64 ?e ?a0 = Inr (3, [[Fin (1 / 2)]], [[0]])"
    by (simp add: eval_defs)
  note s1 = loop_bounds[OF i1, of float64, THEN conjunct2, THEN conjunct1, rule_format, OF r1]
  note s2 = loop_bounds[OF i2, of float64, THEN conjunct2, THEN conjunct2, rule_format, OF r2]
  show ?thesis
    using i0 r0 s0 i1 r1 s1 i2 r2 s2 by blast
qed

subsection \<open>The convergence test\<close>

lemma fold_max_Fin:
  fixes d :: real
  shows "fold (fl2 max) vs v = Fin d \<Longrightarrow> \<forall>w \<in> set (v # vs). \<exists>r. w = Fin r \<and> r \<le> d"
proof (induction vs arbitrary: v)
  case Nil
  then show ?case by simp
next
  case (Cons u vs)
  from Cons.prems have f: "fold (fl2 max) vs (fl2 max u v) = Fin d" by simp
  from Cons.IH[OF f] have all: "\<forall>w \<in> set (fl2 max u v # vs). \<exists>r. w = Fin r \<and> r \<le> d" .
  then obtain r where r: "fl2 max u v = Fin r" "r \<le> d" by auto
  then obtain p q where pq: "v = Fin p" "u = Fin q" "max q p = r"
    by (cases v; cases u) auto
  with r have "p \<le> d" "q \<le> d" by auto
  with pq all show ?case by auto
qed

lemma grid_mem:
  "j < F \<Longrightarrow> c < C \<Longrightarrow> f j c \<in> set (concat (map (\<lambda>j. map (\<lambda>c. f j c) [0..<C]) [0..<F]))"
  by (simp, rule bexI[of _ j], rule imageI, simp_all)

lemma max_abs_diff_entries:
  assumes "max_abs_diff F C D_arr D_new = Inr (Fin d)" and "j < F" and "c < C"
  shows "\<exists>u v. D_arr ! j ! c = Fin u \<and> D_new ! j ! c = Fin v \<and> norm (u - v) \<le> d"
proof -
  let ?e = "\<lambda>j c. fl2 (\<lambda>d n. norm (d - n)) (D_arr ! j ! c) (D_new ! j ! c)"
  let ?l = "concat (map (\<lambda>j. map (\<lambda>c. ?e j c) [0..<C]) [0..<F])"
  from assms(2,3) have mem: "?e j c \<in> set ?l"
    by (rule grid_mem)
  from assms(1) obtain v vs where l: "?l = v # vs" and f: "fold (fl2 max) vs v = Fin d"
    by (cases ?l) (auto simp: max_abs_diff_def)
  from fold_max_Fin[OF f] mem l obtain r where r: "?e j c = Fin r" "r \<le> d"
    by metis
  then obtain p q where "D_arr ! j ! c = Fin p" "D_new ! j ! c = Fin q" "norm (p - q) = r"
    by (cases "D_arr ! j ! c"; cases "D_new ! j ! c") auto
  with r show ?thesis by auto
qed

text \<open>
  C2. When the convergence test of a pass succeeds, \<open>solve\<close> returns at once with the
  counter of the pass and the \<open>x\<close> of the pass, but with the dictionary \<open>D\<close> the pass
  started from: the candidate \<open>D_new\<close> it has just computed is dropped. Both are arrays
  of numbers then, and they differ by less than \<open>tol\<close> in every entry.
\<close>

theorem converged_pass_returns_previous_dictionary:
  assumes "interrupt ext it \<noteq> Some At_start" and "interrupt ext it \<noteq> Some After_write"
    and "sparse_coding ext a s = Inr (rng', indexes, x', xb, yb, mb)"
    and "dictionary_update dt a it s (length indexes) xb yb mb = (A', B', E', D_new)"
    and "max_abs_diff (shape0 (arg_D a)) (shape1 (arg_D a)) (st_D s) D_new = Inr d"
    and "below d (arg_tol a)"
    and "it < arg_maxiter a"
  shows "body dt ext a it s = Inr (Return (it, st_D s, x')) \<and>
         loop dt ext a it s = Inr (it, st_D s, x') \<and>
         (\<forall>j < shape0 (arg_D a). \<forall>c < shape1 (arg_D a).
            \<exists>u v. st_D s ! j ! c = Fin u \<and> D_new ! j ! c = Fin v \<and> norm (u - v) < arg_tol a)"
proof -
  from assms(1-6) have b: "body dt ext a it s = Inr (Return (it, st_D s, x'))"
    by (simp add: body_def)
  with assms(7) have l: "loop dt ext a it s = Inr (it, st_D s, x')"
    by (simp add: loop.simps[of dt ext a it s])
  from assms(6) obtain r where r: "d = Fin r" "r < arg_tol a"
    by (cases d) (auto simp: below_def)
  have "\<exists>u v. st_D s ! j ! c = Fin u \<and> D_new ! j ! c = Fin v \<and> norm (u - v) < arg_tol a"
    if "j < shape0 (arg_D a)" "c < shape1 (arg_D a)" for j c
  proof -
    from max_abs_diff_entries[OF assms(5)[unfolded r(1)] that]
    obtain u v where "st_D s ! j ! c = Fin u" "D_new ! j ! c = Fin v" "norm (u - v) \<le> r"
      by blast
    with r(2) show ?thesis by auto
  qed
  with b l show ?thesis by blast
qed

text \<open>
  One atom 2, one channel, the observation 1, the code 0 and the tolerance 2: the
  candidate of the first pass is 1/2, the test succeeds, and the pass returns the
  atom 2.
\<close>

theorem converged_pass_returns_previous_dictionary_witness:
  "interrupt (ext_fixed [[0 :: real]]) 1 \<noteq> Some At_start \<and>
   interrupt (ext_fixed [[0 :: real]]) 1 \<noteq> Some After_write \<and>
   sparse_coding (ext_fixed [[0]]) (args_ex [[1]] [[2 :: real]] 2 3 ''ista'' None)
       (state_ex [[0]] [[2]])
     = Inr (1, [0], [[0]], [[0]], [[1]], []) \<and>
   dictionary_update float64 (args_ex [[1]] [[2 :: real]] 2 3 ''ista'' None) 1
       (state_ex [[0]] [[2]] :: (real, nat) state) (length [0 :: nat]) [[0]] [[1]] []
     = ([[0]], [[Fin 0]], [], [[Fin (1 / 2)]]) \<and>
   max_abs_diff (shape0 (arg_D (args_ex [[1]] [[2 :: real]] 2 3 ''ista'' None)))
       (shape1 (arg_D (args_ex [[1]] [[2 :: real]] 2 3 ''ista'' None)))
       (st_D (state_ex [[0]] [[2 :: real]] :: (real, nat) state)) [[Fin (1 / 2)]]
     = Inr (Fin (3 / 2)) \<and>
   below (Fin (3 / 2)) (arg_tol (args_ex [[1]] [[2 :: real]] 2 3 ''ista'' None)) \<and>
   1 < arg_maxiter (args_ex [[1]] [[2 :: real]] 2 3 ''ista'' None) \<and>
   body float64 (ext_fixed [[0]]) (args_ex [[1]] [[2]] 2 3 ''ista'' None) 1
       (state_ex [[0]] [[2]])
     = Inr (Return (1, [[Fin 2]], [[0]])) \<and>
   loop float64 (ext_fixed [[0]]) (args_ex [[1]] [[2]] 2 3 ''ista'' None) 1
       (state_ex [[0]] [[2]])
     = Inr (1, [[Fin 2]], [[0]])"
proof -
  let ?e = "ext_fixed [[0 :: real]]"
  let ?a = "args_ex [[1]] [[2 :: real]] 2 3 ''ista'' None"
  let ?s = "state_ex [[0]] [[2 :: real]] :: (real, nat) state"
  have i1: "interrupt ?e 1 \<noteq> Some At_start" and i2: "interrupt ?e 1 \<noteq> Some After_write"
    by (simp_all add: ext_fixed_def)
  have sc: "sparse_coding ?e ?a ?s = Inr (1, [0], [[0]], [[0]], [[1]], [])"
    by (simp add: eval_defs)
  have du: "dictionary_update float64 ?a 1 ?s (length [0 :: nat]) [[0]] [[1]] []
              = ([[0]], [[Fin 0]], [], [[Fin (1 / 2)]])"
    by (simp add: eval_defs)
  have md: "max_abs_diff (shape0 (arg_D ?a)) (shape1 (arg_D ?a)) (st_D ?s) [[Fin (1 / 2)]]
              = Inr (Fin (3 / 2))"
    by (simp add: eval_defs)
  have bl: "below (Fin (3 / 2)) (arg_tol ?a)"
    by (simp add: eval_defs)
  have lt: "1 < arg_maxiter ?a"
    by (simp add: args_ex_def)
  have sd: "st_D ?s = [[Fin 2]]"
    by (simp add: state_ex_def)
  from converged_pass_returns_previous_dictionary[OF i1 i2 sc du md bl lt]
  have "body float64 ?e ?a 1 ?s = Inr (Return (1, [[Fin 2]], [[0]]))"
    and "loop float64 ?e ?a 1 ?s = Inr (1, [[Fin 2]], [[0]])"
    unfolding sd by blast+
  with i1 i2 sc du md bl lt show ?thesis by blast
qed

text \<open>
  On this input the candidate dictionary is \<open>[[1/2]]\<close>, the convergence test succeeds
  in the first pass, and \<open>solve\<close> returns \<open>[[2]]\<close>, the dictionary it was given.
\<close>

theorem returns_candidate_counterexample:
  "dictionary_update float64 (args_ex [[1]] [[2 :: real]] 2 3 ''ista'' None) 1
       (state_ex [[0]] [[2]] :: (real, nat) state) 1 [[0]] [[1]] []
     = ([[0]], [[Fin 0]], [], [[Fin (1 / 2)]]) \<and>
   max_abs_diff 1 1 [[Fin 2]] [[Fin (1 / 2 :: real)]] = Inr (Fin (3 / 2)) \<and>
   below (Fin (3 / 2)) 2 \<and>
   solve float64 (ext_fixed [[0]]) (args_ex [[1]] [[2]] 2 3 ''ista'' None)
     = Inr (1, [[Fin 2]], [[0]]) \<and>
   [[Fin 2]] \<noteq> [[Fin (1 / 2 :: real)]]"
  by (simp add: eval_defs)


end
